theory Spec2Isabelle
  imports Main "HOL-Library.AList" "HOL-Library.Char_ord" "HOL-Library.List_Lexorder"
begin

section \<open>Values shared by the packages\<close>

text \<open>
  A Go \<open>error\<close> of this repository is only ever created by \<open>fmt.Errorf\<close>, tested against
  \<open>nil\<close> and read through \<open>Error()\<close>; it is modelled by its message. A function
  returning \<open>(T, error)\<close> whose value is the zero value next to a non-nil error returns
  \<open>error + T\<close>; one that can return a value together with an error returns a pair with
  an \<open>error option\<close> (\<open>None\<close> is \<open>nil\<close>).
\<close>

type_synonym error = string

text \<open>
  Decoded JSON, as \<open>encoding/json\<close> stores it in an \<open>interface{}\<close>. A type assertion
  \<open>v.(T)\<close> of the source is a \<open>case\<close> on the constructor. Numbers are \<open>float64\<close>; no
  property below reads one, the type is left abstract.
\<close>

typedecl float64

datatype json =
    JNull
  | JBool bool
  | JNumber float64
  | JString string
  | JArray "json list"
  | JObject "string \<Rightarrow> json option"

section \<open>Package jwtutil (pkg/jwt/jwt.go)\<close>

subsection \<open>What the package takes from its libraries\<close>

text \<open>
  \<open>time.Time\<close> is a wall clock reading: seconds since the Unix epoch and nanoseconds
  within the second. \<open>time.Duration\<close> is a number of nanoseconds. \<open>Add\<close> and \<open>Unix\<close>
  follow the library: \<open>Add\<close> splits the duration with Go's truncating \<open>/\<close> and \<open>%\<close> and
  carries the nanoseconds into the seconds. Seconds are an unbounded \<open>int\<close>: the
  library's saturation at the ends of \<open>int64\<close> is not reachable from a clock reading.
\<close>

record Time =
  wall_sec :: int
  wall_nsec :: int

type_synonym Duration = int

definition Second :: Duration where
  "Second = 1000000000"

definition Minute :: Duration where
  "Minute = 60 * Second"

definition go_quot :: "int \<Rightarrow> int \<Rightarrow> int" where
  "go_quot a b = sgn a * sgn b * (\<bar>a\<bar> div \<bar>b\<bar>)"

definition go_rem :: "int \<Rightarrow> int \<Rightarrow> int" where
  "go_rem a b = a - b * go_quot a b"

definition time_Add :: "Time \<Rightarrow> Duration \<Rightarrow> Time" where
  "time_Add t d =
     (let dsec = go_quot d 1000000000;
          nsec = wall_nsec t + go_rem d 1000000000
      in if nsec \<ge> 1000000000 then \<lparr>wall_sec = wall_sec t + (dsec + 1), wall_nsec = nsec - 1000000000\<rparr>
         else if nsec < 0 then \<lparr>wall_sec = wall_sec t + (dsec - 1), wall_nsec = nsec + 1000000000\<rparr>
         else \<lparr>wall_sec = wall_sec t + dsec, wall_nsec = nsec\<rparr>)"

definition time_Unix :: "Time \<Rightarrow> int" where
  "time_Unix t = wall_sec t"

text \<open>
  Keys. \<open>x509.ParsePKCS8PrivateKey\<close> returns an \<open>any\<close> holding an RSA, ECDSA, Ed25519 or
  ECDH private key; \<open>x509.ParsePKCS1PrivateKey\<close> returns \<open>*rsa.PrivateKey\<close>. The key
  material is opaque.
\<close>

datatype ecdsa_PrivateKey = EcdsaKey string

datatype rsa_PrivateKey = RsaKey string

datatype any_key =
    AnyECDSA ecdsa_PrivateKey
  | AnyRSA rsa_PrivateKey
  | AnyEd25519 string
  | AnyECDH string

record pem_Block =
  block_Type :: string
  block_Bytes :: string

text \<open>
  A \<open>jwt.Token\<close> before signing: the signing method, the header and the claims.
  \<open>jwt.MapClaims\<close> holds strings and \<open>int64\<close>s here. \<open>jwt.NewWithClaims\<close> fills the
  header with \<open>typ\<close> and the method's \<open>alg\<close>.
\<close>

datatype claim_value = ClaimStr string | ClaimInt int

record SigningMethod =
  Alg :: string

record jwt_Token =
  Method :: SigningMethod
  Header :: "string \<Rightarrow> string option"
  Claims :: "string \<Rightarrow> claim_value option"

definition SigningMethodES256 :: SigningMethod where
  "SigningMethodES256 = \<lparr>Alg = ''ES256''\<rparr>"

definition jwt_NewWithClaims :: "SigningMethod \<Rightarrow> (string \<Rightarrow> claim_value option) \<Rightarrow> jwt_Token" where
  "jwt_NewWithClaims method claims =
     \<lparr>Method = method,
      Header = [''typ'' \<mapsto> ''JWT'', ''alg'' \<mapsto> Alg method],
      Claims = claims\<rparr>"

subsection \<open>HTTP messages\<close>

record http_Request =
  req_Method :: string
  req_URL :: string
  req_Header :: "string \<Rightarrow> string option"
  req_Body :: "string option"

text \<open>
  A response as the transport reads it: the status code and what \<open>io.ReadAll\<close> of the
  body gives.
\<close>

record http_Response =
  StatusCode :: int
  resp_Body :: "error + string"

subsection \<open>The environment\<close>

text \<open>
  Everything outside the repository is a parameter: the PEM and X.509 decoders, the
  signer, the clock, the file system, the JSON codec and the network. \<open>'w\<close> is the state
  of the world; only a network round trip changes it here, the clock, the random source
  of the signer and the file system are read from it.
\<close>

record 'w env =
  pem_Decode :: "string \<Rightarrow> pem_Block option"
  x509_ParsePKCS8PrivateKey :: "string \<Rightarrow> error + any_key"
  x509_ParsePKCS1PrivateKey :: "string \<Rightarrow> error + rsa_PrivateKey"
  jwt_SignedString :: "'w \<Rightarrow> jwt_Token \<Rightarrow> ecdsa_PrivateKey \<Rightarrow> error + string"
  time_Now :: "'w \<Rightarrow> Time"
  os_Stat :: "'w \<Rightarrow> string \<Rightarrow> error option"
  os_ReadFile :: "'w \<Rightarrow> string \<Rightarrow> error + string"
  strings_ToUpper :: "string \<Rightarrow> string"
  json_Marshal :: "json \<Rightarrow> error + string"
  json_Unmarshal :: "string \<Rightarrow> error + (string \<Rightarrow> json option)"
  http_NewRequest :: "string \<Rightarrow> string \<Rightarrow> string option \<Rightarrow> error + http_Request"
  http_Do :: "'w \<Rightarrow> http_Request \<Rightarrow> (error + http_Response) \<times> 'w"
  float64_to_int :: "float64 \<Rightarrow> int"

subsection \<open>The generator\<close>

definition jwtAud :: string where
  "jwtAud = ''appstoreconnect-v1''"

definition jwtAlg :: string where
  "jwtAlg = ''ES256''"

record JWTConfig =
  Issuer :: string
  KeyID :: string
  PrivateKey :: string

record Generator =
  gen_config :: JWTConfig

definition NewGenerator :: "JWTConfig \<Rightarrow> error + Generator" where
  "NewGenerator config =
     (if Issuer config = [] then Inl ''issuer is required''
      else if KeyID config = [] then Inl ''key id is required''
      else if PrivateKey config = [] then Inl ''private key is required''
      else Inr \<lparr>gen_config = config\<rparr>)"

definition parsePrivateKey :: "'w env \<Rightarrow> Generator \<Rightarrow> error + ecdsa_PrivateKey" where
  "parsePrivateKey env g =
     (case pem_Decode env (PrivateKey (gen_config g)) of
        None \<Rightarrow> Inl ''failed to decode PEM block''
      | Some block \<Rightarrow>
          (case (case x509_ParsePKCS8PrivateKey env (block_Bytes block) of
                   Inr key \<Rightarrow> Inr key
                 | Inl _ \<Rightarrow>
                     (case x509_ParsePKCS1PrivateKey env (block_Bytes block) of
                        Inl err \<Rightarrow> Inl (''failed to parse private key: '' @ err)
                      | Inr key \<Rightarrow> Inr (AnyRSA key))) of
             Inl err \<Rightarrow> Inl err
           | Inr key \<Rightarrow>
               (case key of
                  AnyECDSA ecdsaKey \<Rightarrow> Inr ecdsaKey
                | _ \<Rightarrow> Inl ''private key is not ECDSA'')))"

definition GenerateToken :: "'w env \<Rightarrow> 'w \<Rightarrow> Generator \<Rightarrow> error + string" where
  "GenerateToken env w g =
     (case parsePrivateKey env g of
        Inl err \<Rightarrow> Inl (''failed to parse private key: '' @ err)
      | Inr privateKey \<Rightarrow>
          (let now = time_Now env w;
               claims = [''iss'' \<mapsto> ClaimStr (Issuer (gen_config g)),
                         ''iat'' \<mapsto> ClaimInt (time_Unix (time_Add now ((- 60) * Second))),
                         ''exp'' \<mapsto> ClaimInt (time_Unix (time_Add now (19 * Minute))),
                         ''aud'' \<mapsto> ClaimStr jwtAud];
               token = jwt_NewWithClaims SigningMethodES256 claims;
               token = token\<lparr>Header := (Header token)(''kid'' \<mapsto> KeyID (gen_config g))\<rparr>
           in case jwt_SignedString env w token privateKey of
                Inl err \<Rightarrow> Inl (''failed to sign token: '' @ err)
              | Inr tokenString \<Rightarrow> Inr tokenString))"


section \<open>Package httpclient (pkg/httpclient/client.go)\<close>

subsection \<open>Go maps and type assertions\<close>

text \<open>
  A Go map that is only read and written by key is a partial function; reading a missing
  key of a \<open>map[string]string\<close> gives the empty string. A map the code ranges over is the
  list of its entries in the order the range visits them (the order is unspecified in
  Go, so a property is stated for every order); its keys are distinct.
\<close>

definition go_index :: "(string \<Rightarrow> string option) \<Rightarrow> string \<Rightarrow> string" where
  "go_index m k = (case m k of None \<Rightarrow> [] | Some v \<Rightarrow> v)"

fun as_array :: "json option \<Rightarrow> json list option" where
  "as_array (Some (JArray xs)) = Some xs"
| "as_array _ = None"

fun as_object :: "json option \<Rightarrow> (string \<Rightarrow> json option) option" where
  "as_object (Some (JObject m)) = Some m"
| "as_object _ = None"

fun as_string :: "json option \<Rightarrow> string option" where
  "as_string (Some (JString s)) = Some s"
| "as_string _ = None"

text \<open>
  The idiom \<open>x := ""; if v, ok := m[k].(string); ok { x = v }\<close>.
\<close>

fun string_or_empty :: "json option \<Rightarrow> string" where
  "string_or_empty (Some (JString v)) = v"
| "string_or_empty _ = []"

fun as_float64 :: "json option \<Rightarrow> float64 option" where
  "as_float64 (Some (JNumber x)) = Some x"
| "as_float64 _ = None"

subsection \<open>Query strings (net/url)\<close>

text \<open>
  \<open>url.Values\<close> is a \<open>map[string][]string\<close>; \<open>Encode\<close> visits its keys in sorted order,
  so it is kept as an association list. \<open>QueryEscape\<close> keeps letters, digits and
  \<open>- _ . ~\<close>, writes a space as \<open>+\<close> and every other byte as \<open>%XX\<close> in upper-case
  hexadecimal.
\<close>

type_synonym url_Values = "(string \<times> string list) list"

definition Values_Add :: "url_Values \<Rightarrow> string \<Rightarrow> string \<Rightarrow> url_Values" where
  "Values_Add v key val =
     AList.update key ((case map_of v key of None \<Rightarrow> [] | Some vs \<Rightarrow> vs) @ [val]) v"

definition shouldEscape :: "char \<Rightarrow> bool" where
  "shouldEscape c =
     (if (CHR ''a'' \<le> c \<and> c \<le> CHR ''z'') \<or> (CHR ''A'' \<le> c \<and> c \<le> CHR ''Z'')
          \<or> (CHR ''0'' \<le> c \<and> c \<le> CHR ''9'') then False
      else if c = CHR ''-'' \<or> c = CHR ''_'' \<or> c = CHR ''.'' \<or> c = CHR ''~'' then False
      else True)"

definition upperhex :: "nat \<Rightarrow> char" where
  "upperhex n = ''0123456789ABCDEF'' ! n"

definition QueryEscape :: "string \<Rightarrow> string" where
  "QueryEscape s =
     concat (map (\<lambda>c. if c = CHR '' '' then ''+''
                       else if shouldEscape c
                       then [CHR ''%'', upperhex (of_char c div 16), upperhex (of_char c mod 16)]
                       else [c]) s)"

definition Values_Encode :: "url_Values \<Rightarrow> string" where
  "Values_Encode v =
     (if v = [] then []
      else fold (\<lambda>k buf.
                   fold (\<lambda>val buf.
                           (if buf \<noteq> [] then buf @ ''&'' else buf)
                             @ QueryEscape k @ ''='' @ QueryEscape val)
                        (case map_of v k of None \<Rightarrow> [] | Some vs \<Rightarrow> vs) buf)
                (sort (map fst v)) [])"

subsection \<open>The transport\<close>

record http_Config =
  BaseURL :: string
  APIVersion :: string
  Token :: string
  Headers :: "string \<Rightarrow> string option"

record http_Client =
  hc_config :: http_Config
  hc_Timeout :: Duration

definition httpclient_NewClient :: "http_Config \<Rightarrow> http_Client" where
  "httpclient_NewClient config = \<lparr>hc_config = config, hc_Timeout = 30 * Second\<rparr>"

definition SetToken :: "http_Client \<Rightarrow> string \<Rightarrow> http_Client" where
  "SetToken c token = c\<lparr>hc_config := (hc_config c)\<lparr>Token := token\<rparr>\<rparr>"

definition SetHeaders :: "http_Client \<Rightarrow> (string \<Rightarrow> string option) \<Rightarrow> http_Client" where
  "SetHeaders c headers =
     c\<lparr>hc_config := (hc_config c)\<lparr>Headers := Headers (hc_config c) ++ headers\<rparr>\<rparr>"

definition GetHeaders :: "http_Client \<Rightarrow> (string \<Rightarrow> string option)" where
  "GetHeaders c =
     (let headers = Map.empty ++ Headers (hc_config c)
      in if Token (hc_config c) \<noteq> []
         then headers(''Authorization'' \<mapsto> ''Bearer '' @ Token (hc_config c))
         else headers)"

definition BuildURL :: "http_Client \<Rightarrow> string \<Rightarrow> string" where
  "BuildURL c path = BaseURL (hc_config c) @ ''/'' @ APIVersion (hc_config c) @ path"

text \<open>
  \<open>fmt.Sprintf("%d", n)\<close> for the status code. In the three verbs a \<open>nil\<close> map is the
  empty map: the callers only read it.
\<close>

fun digits :: "nat \<Rightarrow> string" where
  "digits n = (if n < 10 then [char_of (48 + n)] else digits (n div 10) @ [char_of (48 + n mod 10)])"

declare digits.simps [simp del]

definition itoa :: "int \<Rightarrow> string" where
  "itoa i = (if i < 0 then ''-'' @ digits (nat (- i)) else digits (nat i))"

definition Get :: "'w env \<Rightarrow> 'w \<Rightarrow> http_Client \<Rightarrow> string \<Rightarrow> (string \<times> string) list
    \<Rightarrow> ((string \<Rightarrow> json option) \<times> error option) \<times> 'w" where
  "Get env w c path params =
     (let fullURL = BuildURL c path;
          fullURL = (if length params > 0
                     then fullURL @ ''?'' @
                          Values_Encode (fold (\<lambda>(k, v) values. Values_Add values k v) params [])
                     else fullURL)
      in case http_NewRequest env ''GET'' fullURL None of
           Inl err \<Rightarrow> ((Map.empty, Some (''failed to create request: '' @ err)), w)
         | Inr req \<Rightarrow>
             (let req = req\<lparr>req_Header := req_Header req ++ GetHeaders c\<rparr>
              in case http_Do env w req of
                   (Inl err, w') \<Rightarrow> ((Map.empty, Some (''failed to send request: '' @ err)), w')
                 | (Inr resp, w') \<Rightarrow>
                     (case resp_Body resp of
                        Inl err \<Rightarrow> ((Map.empty, Some (''failed to read response: '' @ err)), w')
                      | Inr body \<Rightarrow>
                          (case json_Unmarshal env body of
                             Inl err \<Rightarrow> ((Map.empty, Some (''failed to parse JSON: '' @ err)), w')
                           | Inr result \<Rightarrow>
                               if StatusCode resp \<ge> 400
                               then ((result, Some (''API request failed with status '' @
                                                    itoa (StatusCode resp))), w')
                               else ((result, None), w')))))"

definition PostJSON :: "'w env \<Rightarrow> 'w \<Rightarrow> http_Client \<Rightarrow> string \<Rightarrow> json
    \<Rightarrow> ((string \<Rightarrow> json option) \<times> error option) \<times> 'w" where
  "PostJSON env w c path body =
     (let fullURL = BuildURL c path
      in case json_Marshal env body of
           Inl err \<Rightarrow> ((Map.empty, Some (''failed to marshal JSON: '' @ err)), w)
         | Inr jsonBody \<Rightarrow>
             (case http_NewRequest env ''POST'' fullURL (Some jsonBody) of
                Inl err \<Rightarrow> ((Map.empty, Some (''failed to create request: '' @ err)), w)
              | Inr req \<Rightarrow>
                  (let headers = (GetHeaders c)(''Content-Type'' \<mapsto> ''application/json'');
                       req = req\<lparr>req_Header := req_Header req ++ headers\<rparr>
                   in case http_Do env w req of
                        (Inl err, w') \<Rightarrow> ((Map.empty, Some (''failed to send request: '' @ err)), w')
                      | (Inr resp, w') \<Rightarrow>
                          (case resp_Body resp of
                             Inl err \<Rightarrow>
                               ((Map.empty, Some (''failed to read response: '' @ err)), w')
                           | Inr responseBody \<Rightarrow>
                               (case json_Unmarshal env responseBody of
                                  Inl err \<Rightarrow>
                                    ((Map.empty, Some (''failed to parse JSON: '' @ err)), w')
                                | Inr result \<Rightarrow>
                                    if StatusCode resp \<ge> 400
                                    then ((result, Some (''API request failed with status '' @
                                                         itoa (StatusCode resp))), w')
                                    else ((result, None), w'))))))"

definition Delete :: "'w env \<Rightarrow> 'w \<Rightarrow> http_Client \<Rightarrow> string \<Rightarrow> (string \<times> string) list
    \<Rightarrow> ((string \<Rightarrow> json option) \<times> error option) \<times> 'w" where
  "Delete env w c path params =
     (let fullURL = BuildURL c path;
          fullURL = (if length params > 0
                     then fullURL @ ''?'' @
                          Values_Encode (fold (\<lambda>(k, v) values. Values_Add values k v) params [])
                     else fullURL)
      in case http_NewRequest env ''DELETE'' fullURL None of
           Inl err \<Rightarrow> ((Map.empty, Some (''failed to create request: '' @ err)), w)
         | Inr req \<Rightarrow>
             (let req = req\<lparr>req_Header := req_Header req ++ GetHeaders c\<rparr>
              in case http_Do env w req of
                   (Inl err, w') \<Rightarrow> ((Map.empty, Some (''failed to send request: '' @ err)), w')
                 | (Inr resp, w') \<Rightarrow>
                     (case resp_Body resp of
                        Inl err \<Rightarrow> ((Map.empty, Some (''failed to read response: '' @ err)), w')
                      | Inr body \<Rightarrow>
                          (case json_Unmarshal env body of
                             Inl err \<Rightarrow> ((Map.empty, Some (''failed to parse JSON: '' @ err)), w')
                           | Inr result \<Rightarrow>
                               if StatusCode resp \<ge> 400
                               then ((result, Some (''API request failed with status '' @
                                                    itoa (StatusCode resp))), w')
                               else ((result, None), w')))))"

section \<open>Package appstore: the client (pkg/appstore/client.go)\<close>

definition baseURI :: string where
  "baseURI = ''https://api.appstoreconnect.apple.com''"

definition defaultAPIVersion :: string where
  "defaultAPIVersion = ''v1''"

record Config =
  cfg_Issuer :: string
  cfg_KeyID :: string
  Secret :: string
  cfg_APIVersion :: string

record Client =
  config :: Config
  httpClient :: http_Client
  jwtGenerator :: Generator

definition NewClient :: "'w env \<Rightarrow> 'w \<Rightarrow> Config \<Rightarrow> error + Client" where
  "NewClient env w cfg0 =
     (if cfg_Issuer cfg0 = [] then Inl ''issuer is required''
      else if cfg_KeyID cfg0 = [] then Inl ''key id is required''
      else if Secret cfg0 = [] then Inl ''secret is required''
      else
        (let cfg = (if cfg_APIVersion cfg0 = []
                    then cfg0\<lparr>cfg_APIVersion := defaultAPIVersion\<rparr> else cfg0)
         in case (case os_Stat env w (Secret cfg) of
                    None \<Rightarrow>
                      (case os_ReadFile env w (Secret cfg) of
                         Inl err \<Rightarrow> Inl (''failed to read secret file: '' @ err)
                       | Inr content \<Rightarrow> Inr content)
                  | Some _ \<Rightarrow> Inr (Secret cfg)) of
              Inl err \<Rightarrow> Inl err
            | Inr privateKey \<Rightarrow>
                (case NewGenerator \<lparr>Issuer = cfg_Issuer cfg, KeyID = cfg_KeyID cfg,
                                    PrivateKey = privateKey\<rparr> of
                   Inl err \<Rightarrow> Inl (''failed to create JWT generator: '' @ err)
                 | Inr gen \<Rightarrow>
                     (let hc = httpclient_NewClient
                            \<lparr>BaseURL = baseURI, APIVersion = cfg_APIVersion cfg,
                             Token = [], Headers = Map.empty\<rparr>
                      in Inr \<lparr>config = cfg, httpClient = hc, jwtGenerator = gen\<rparr>))))"

definition GetToken :: "'w env \<Rightarrow> 'w \<Rightarrow> Client \<Rightarrow> error + string" where
  "GetToken env w c =
     (case GenerateToken env w (jwtGenerator c) of
        Inl err \<Rightarrow> Inl (''failed to generate token: '' @ err)
      | Inr token \<Rightarrow> Inr token)"

text \<open>
  \<open>EnsureAuth\<close> returns its error and the client as it leaves it.
\<close>

definition EnsureAuth :: "'w env \<Rightarrow> 'w \<Rightarrow> Client \<Rightarrow> error option \<times> Client" where
  "EnsureAuth env w c =
     (if go_index (GetHeaders (httpClient c)) ''Authorization'' = []
      then (case GetToken env w c of
              Inl err \<Rightarrow> (Some err, c)
            | Inr token \<Rightarrow> (None, c\<lparr>httpClient := SetToken (httpClient c) token\<rparr>))
      else (None, c))"

section \<open>Package appstore: devices (pkg/appstore/device.go)\<close>

text \<open>
  A \<open>DeviceAPI\<close> holds only the pointer to its client, so its methods take the client and
  return it with the world. A single-value type assertion that fails panics: the
  outcome of a method is a panic or the returned pair.
\<close>

datatype 'a outcome = Panic | Return 'a

definition DeviceAPI_All :: "'w env \<Rightarrow> 'w \<Rightarrow> Client \<Rightarrow> (string \<times> string) list
    \<Rightarrow> ((string \<Rightarrow> json option) \<times> error option) \<times> Client \<times> 'w" where
  "DeviceAPI_All env w c params =
     (case EnsureAuth env w c of
        (Some err, c') \<Rightarrow> ((Map.empty, Some err), c', w)
      | (None, c') \<Rightarrow>
          (case Get env w (httpClient c') ''/devices'' params of
             (r, w') \<Rightarrow> (r, c', w')))"

definition Register :: "'w env \<Rightarrow> 'w \<Rightarrow> Client \<Rightarrow> string \<Rightarrow> string \<Rightarrow> string
    \<Rightarrow> ((string \<Rightarrow> json option) \<times> error option) \<times> Client \<times> 'w" where
  "Register env w c name platform udid =
     (case EnsureAuth env w c of
        (Some err, c') \<Rightarrow> ((Map.empty, Some err), c', w)
      | (None, c') \<Rightarrow>
          (let data = JObject [''data'' \<mapsto> JObject
                        [''type'' \<mapsto> JString ''devices'',
                         ''attributes'' \<mapsto> JObject
                            [''name'' \<mapsto> JString name,
                             ''platform'' \<mapsto> JString (strings_ToUpper env platform),
                             ''udid'' \<mapsto> JString udid]]]
           in case PostJSON env w (httpClient c') ''/devices'' data of
                (r, w') \<Rightarrow> (r, c', w')))"

record DeviceType =
  Success :: bool
  DeviceClass :: string
  Model :: string
  Platform :: string
  Status :: string
  IsIPhone :: bool
  IsIPad :: bool
  IsMac :: bool
  Error :: string

text \<open>
  The composite literal \<open>DeviceType{Success: false, Error: msg}\<close>: every other field has
  its zero value.
\<close>

definition DeviceType_failure :: "string \<Rightarrow> DeviceType" where
  "DeviceType_failure msg =
     \<lparr>Success = False, DeviceClass = [], Model = [], Platform = [], Status = [],
      IsIPhone = False, IsIPad = False, IsMac = False, Error = msg\<rparr>"

fun strings_Contains :: "string \<Rightarrow> string \<Rightarrow> bool" where
  "strings_Contains [] substr = (substr = [])"
| "strings_Contains (c # s) substr =
     (take (length substr) (c # s) = substr \<or> strings_Contains s substr)"

definition GetDeviceType :: "'w env \<Rightarrow> 'w \<Rightarrow> Client \<Rightarrow> string
    \<Rightarrow> (DeviceType \<times> error option) outcome \<times> Client \<times> 'w" where
  "GetDeviceType env w c udid =
     (let params = [(''filter[udid]'', udid),
                    (''fields[devices]'', ''deviceClass,model,platform,status'')]
      in case DeviceAPI_All env w c params of
           ((response, Some err), c', w') \<Rightarrow> (Return (DeviceType_failure err, None), c', w')
         | ((response, None), c', w') \<Rightarrow>
             (let device_data =
                    (case as_array (response ''data'') of
                       None \<Rightarrow> Return (DeviceType_failure ''Device not found'', None)
                     | Some data \<Rightarrow>
                         if length data = 0
                         then Return (DeviceType_failure ''Device not found'', None)
                         else
                           (case as_object (Some (data ! 0)) of
                              None \<Rightarrow> Return (DeviceType_failure ''Invalid device data'', None)
                            | Some device \<Rightarrow>
                                (case as_object (device ''attributes'') of
                                   None \<Rightarrow>
                                     Return (DeviceType_failure ''Invalid device attributes'', None)
                                 | Some attributes \<Rightarrow>
                                     (let deviceClass = string_or_empty (attributes ''deviceClass'');
                                          model = string_or_empty (attributes ''model'');
                                          platform = string_or_empty (attributes ''platform'');
                                          status = string_or_empty (attributes ''status'')
                                      in Return
                                           (\<lparr>Success = True, DeviceClass = deviceClass,
                                             Model = model, Platform = platform, Status = status,
                                             IsIPhone = (deviceClass = ''IPHONE''),
                                             IsIPad = (deviceClass = ''IPAD''),
                                             IsMac = (deviceClass = ''MAC''),
                                             Error = []\<rparr>, None)))))
              in (case as_array (response ''errors'') of
                    None \<Rightarrow> device_data
                  | Some errors \<Rightarrow>
                      if length errors > 0
                      then (case as_object (Some (errors ! 0)) of
                              None \<Rightarrow> Panic
                            | Some e0 \<Rightarrow>
                                (case as_string (e0 ''detail'') of
                                   Some errorDetail \<Rightarrow>
                                     Return (DeviceType_failure errorDetail, None)
                                 | None \<Rightarrow> device_data))
                      else device_data),
                 c', w'))"

definition RegisterAndGetType :: "'w env \<Rightarrow> 'w \<Rightarrow> Client \<Rightarrow> string \<Rightarrow> string \<Rightarrow> string
    \<Rightarrow> (DeviceType \<times> error option) outcome \<times> Client \<times> 'w" where
  "RegisterAndGetType env w c name platform udid =
     (case Register env w c name platform udid of
        ((registration, Some err), c', w') \<Rightarrow> (Return (DeviceType_failure err, None), c', w')
      | ((registration, None), c', w') \<Rightarrow>
          (let registered =
                 (case as_object (registration ''data'') of
                    None \<Rightarrow> Return (DeviceType_failure ''Invalid registration data'', None)
                  | Some data \<Rightarrow>
                      (case as_object (data ''attributes'') of
                         None \<Rightarrow> Return (DeviceType_failure ''Invalid device attributes'', None)
                       | Some attributes \<Rightarrow>
                           (let deviceClass = string_or_empty (attributes ''deviceClass'');
                                model = string_or_empty (attributes ''model'');
                                platformResult = string_or_empty (attributes ''platform'');
                                status = string_or_empty (attributes ''status'');
                                deviceID = string_or_empty (data ''id'')
                            in Return
                                 (\<lparr>Success = True, DeviceClass = deviceClass,
                                   Model = model, Platform = platformResult, Status = status,
                                   IsIPhone = (deviceClass = ''IPHONE''),
                                   IsIPad = (deviceClass = ''IPAD''),
                                   IsMac = (deviceClass = ''MAC''),
                                   Error = []\<rparr>, None))))
           in case as_array (registration ''errors'') of
                None \<Rightarrow> (registered, c', w')
              | Some errors \<Rightarrow>
                  if length errors > 0
                  then (case as_object (Some (errors ! 0)) of
                          None \<Rightarrow> (Panic, c', w')
                        | Some e0 \<Rightarrow>
                            (case as_string (e0 ''detail'') of
                               Some errorDetail \<Rightarrow>
                                 if strings_Contains errorDetail ''already exists on this team''
                                 then GetDeviceType env w' c' udid
                                 else (Return (DeviceType_failure errorDetail, None), c', w')
                             | None \<Rightarrow> (registered, c', w')))
                  else (registered, c', w')))"

record DataInfo =
  IPHONE :: int
  IPAD :: int
  MAC :: int
  Email :: string

record DeviceSortResult =
  Code :: int
  Msg :: string
  Data :: DataInfo

definition DataInfo_zero :: DataInfo where
  "DataInfo_zero = \<lparr>IPHONE = 0, IPAD = 0, MAC = 0, Email = []\<rparr>"

text \<open>
  The loop of \<open>DeviceSort\<close> over the listed devices, on the two counters.
\<close>

fun DeviceSort_count :: "json list \<Rightarrow> int \<times> int \<Rightarrow> int \<times> int" where
  "DeviceSort_count [] (iPhone, iPad) = (iPhone, iPad)"
| "DeviceSort_count (item # rest) (iPhone, iPad) =
     DeviceSort_count rest
       (case as_object (Some item) of
          None \<Rightarrow> (iPhone, iPad)
        | Some device \<Rightarrow>
            (case as_object (device ''attributes'') of
               None \<Rightarrow> (iPhone, iPad)
             | Some attributes \<Rightarrow>
                 (case as_string (attributes ''deviceClass'') of
                    None \<Rightarrow> (iPhone, iPad)
                  | Some deviceClass \<Rightarrow>
                      if deviceClass = ''IPHONE'' then (iPhone + 1, iPad)
                      else if deviceClass = ''IPAD'' then (iPhone, iPad + 1)
                      else (iPhone, iPad))))"

definition DeviceSort :: "'w env \<Rightarrow> 'w \<Rightarrow> Client
    \<Rightarrow> (DeviceSortResult \<times> error option) outcome \<times> Client \<times> 'w" where
  "DeviceSort env w c =
     (let result = \<lparr>Code = 0, Msg = [], Data = DataInfo_zero\<rparr>;
          iOSParams = [(''filter[platform]'', ''IOS''), (''fields[devices]'', ''deviceClass''),
                       (''limit'', ''200'')]
      in case DeviceAPI_All env w c iOSParams of
           ((iOSData, Some err), c1, w1) \<Rightarrow> (Return (result, Some err), c1, w1)
         | ((iOSData, None), c1, w1) \<Rightarrow>
             (let (iPhone, iPad) =
                    (case as_array (iOSData ''data'') of
                       Some data \<Rightarrow> DeviceSort_count data (0, 0)
                     | None \<Rightarrow> (0, 0));
                  macParams = [(''filter[platform]'', ''MAC_OS''),
                               (''fields[devices]'', ''deviceClass'')]
              in case DeviceAPI_All env w1 c1 macParams of
                   ((macData, Some err), c2, w2) \<Rightarrow>
                     (Return (\<lparr>Code = 1001, Msg = ''Failed to query Mac devices'',
                               Data = DataInfo_zero\<rparr>, None), c2, w2)
                 | ((macData, None), c2, w2) \<Rightarrow>
                     (let counted =
                            (let mac = (case as_object (macData ''meta'') of
                                          None \<Rightarrow> 0
                                        | Some meta \<Rightarrow>
                                            (case as_object (meta ''paging'') of
                                               None \<Rightarrow> 0
                                             | Some paging \<Rightarrow>
                                                 (case as_float64 (paging ''total'') of
                                                    None \<Rightarrow> 0
                                                  | Some total' \<Rightarrow> float64_to_int env total')))
                             in case Get env w2 (httpClient c2) ''/users'' [] of
                                  ((userData, Some err), w3) \<Rightarrow> (Return (result, Some err), c2, w3)
                                | ((userData, None), w3) \<Rightarrow>
                                    (let email =
                                           (case as_array (userData ''data'') of
                                              None \<Rightarrow> []
                                            | Some data \<Rightarrow>
                                                if length data > 0
                                                then (case as_object (Some (data ! 0)) of
                                                        None \<Rightarrow> []
                                                      | Some user \<Rightarrow>
                                                          (case as_object (user ''attributes'') of
                                                             None \<Rightarrow> []
                                                           | Some attributes \<Rightarrow>
                                                               (case as_string (attributes ''username'') of
                                                                  None \<Rightarrow> []
                                                                | Some username \<Rightarrow> username)))
                                                else [])
                                     in (Return (\<lparr>Code = 1, Msg = ''ok'',
                                                  Data = \<lparr>IPHONE = 100 - iPhone, IPAD = 100 - iPad,
                                                          MAC = 100 - mac, Email = email\<rparr>\<rparr>, None),
                                         c2, w3)))
                      in case as_array (macData ''errors'') of
                           None \<Rightarrow> counted
                         | Some errors \<Rightarrow>
                             if length errors > 0
                             then (case as_object (Some (errors ! 0)) of
                                     None \<Rightarrow> (Panic, c2, w2)
                                   | Some e0 \<Rightarrow>
                                       (case as_string (e0 ''detail'') of
                                          Some errorDetail \<Rightarrow>
                                            (Return (\<lparr>Code = 1001, Msg = errorDetail,
                                                      Data = DataInfo_zero\<rparr>, None), c2, w2)
                                        | None \<Rightarrow> counted))
                             else counted)))"

section \<open>Notions the properties are stated with\<close>

text \<open>
  A clock reading is well formed when its nanoseconds lie within one second, as every
  \<open>time.Time\<close> does.
\<close>

definition valid_Time :: "Time \<Rightarrow> bool" where
  "valid_Time t = (0 \<le> wall_nsec t \<and> wall_nsec t < 1000000000)"

text \<open>
  The class of a listed device, the number of devices of a class in a data array, and
  the data array of a listing response.
\<close>

definition device_class_of :: "json \<Rightarrow> string option" where
  "device_class_of item =
     (case item of
        JObject device \<Rightarrow>
          (case device ''attributes'' of
             Some (JObject attributes) \<Rightarrow>
               (case attributes ''deviceClass'' of Some (JString s) \<Rightarrow> Some s | _ \<Rightarrow> None)
           | _ \<Rightarrow> None)
      | _ \<Rightarrow> None)"

definition devices_of_class :: "string \<Rightarrow> json list \<Rightarrow> nat" where
  "devices_of_class cls data = length (filter (\<lambda>item. device_class_of item = Some cls) data)"

definition listing_data :: "(string \<Rightarrow> json option) \<Rightarrow> json list" where
  "listing_data listing = (case listing ''data'' of Some (JArray data) \<Rightarrow> data | _ \<Rightarrow> [])"

text \<open>
  Decoding a query string, as \<open>url.ParseQuery\<close> of the Go library does: the text is cut
  at each \<open>&\<close>, a part with a \<open>;\<close> is an error, an empty part is skipped, the rest is
  cut at the first \<open>=\<close>, and key and value are unescaped (\<open>+\<close> is a space, \<open>%XX\<close> a
  byte) and appended to the values of the key. The result is the values decoded and
  the first error, if any.
\<close>

definition ishex :: "char \<Rightarrow> bool" where
  "ishex c = ((CHR ''0'' \<le> c \<and> c \<le> CHR ''9'') \<or> (CHR ''a'' \<le> c \<and> c \<le> CHR ''f'')
              \<or> (CHR ''A'' \<le> c \<and> c \<le> CHR ''F''))"

definition unhex :: "char \<Rightarrow> nat" where
  "unhex c =
     (if CHR ''0'' \<le> c \<and> c \<le> CHR ''9'' then of_char c - of_char CHR ''0''
      else if CHR ''a'' \<le> c \<and> c \<le> CHR ''f'' then of_char c - of_char CHR ''a'' + 10
      else if CHR ''A'' \<le> c \<and> c \<le> CHR ''F'' then of_char c - of_char CHR ''A'' + 10
      else 0)"

fun QueryUnescape :: "string \<Rightarrow> error + string" where
  "QueryUnescape [] = Inr []"
| "QueryUnescape (c # s) =
     (if c = CHR ''%''
      then (case s of
              a # b # rest \<Rightarrow>
                if ishex a \<and> ishex b
                then (case QueryUnescape rest of
                        Inl err \<Rightarrow> Inl err
                      | Inr t \<Rightarrow> Inr (char_of (unhex a * 16 + unhex b) # t))
                else Inl ''invalid URL escape''
            | _ \<Rightarrow> Inl ''invalid URL escape'')
      else (case QueryUnescape s of
              Inl err \<Rightarrow> Inl err
            | Inr t \<Rightarrow> Inr ((if c = CHR ''+'' then CHR '' '' else c) # t)))"

definition strings_Cut :: "string \<Rightarrow> char \<Rightarrow> string \<times> string" where
  "strings_Cut s sep = (takeWhile (\<lambda>c. c \<noteq> sep) s, drop 1 (dropWhile (\<lambda>c. c \<noteq> sep) s))"

lemma strings_Cut_shorter:
  assumes "query \<noteq> []" and "strings_Cut query sep = (key, query')"
  shows "length query' < length query"
proof -
  have "length (dropWhile (\<lambda>c. c \<noteq> sep) query) \<le> length query"
    by (rule length_dropWhile_le)
  with assms show ?thesis
    by (cases "dropWhile (\<lambda>c. c \<noteq> sep) query") (auto simp: strings_Cut_def)
qed

function parseQuery :: "url_Values \<Rightarrow> error option \<Rightarrow> string \<Rightarrow> url_Values \<times> error option" where
  "parseQuery m err query =
     (if query = [] then (m, err)
      else
        (let (key, query') = strings_Cut query CHR ''&''
         in if CHR '';'' \<in> set key
            then parseQuery m (Some ''invalid semicolon separator in query'') query'
            else if key = [] then parseQuery m err query'
            else
              (let (key', val) = strings_Cut key CHR ''=''
               in case QueryUnescape key' of
                    Inl err1 \<Rightarrow> parseQuery m (if err = None then Some err1 else err) query'
                  | Inr key'' \<Rightarrow>
                      (case QueryUnescape val of
                         Inl err1 \<Rightarrow> parseQuery m (if err = None then Some err1 else err) query'
                       | Inr value \<Rightarrow> parseQuery (Values_Add m key'' value) err query'))))"
  by pat_completeness auto

termination
  by (relation "measure (\<lambda>(m, err, query). length query)")
     (simp_all add: strings_Cut_shorter [OF _ sym])

declare parseQuery.simps [simp del]

definition ParseQuery :: "string \<Rightarrow> url_Values \<times> error option" where
  "ParseQuery query = parseQuery [] None query"

text \<open>
  What \<open>QueryEscape\<close> writes for one byte, the text of one pair, and the text of a list
  of pairs joined by \<open>&\<close>.
\<close>

definition escape_char :: "char \<Rightarrow> string" where
  "escape_char c =
     (if c = CHR '' '' then ''+''
      else if shouldEscape c
      then [CHR ''%'', upperhex (of_char c div 16), upperhex (of_char c mod 16)]
      else [c])"

definition query_pair :: "string \<times> string \<Rightarrow> string" where
  "query_pair kv = QueryEscape (fst kv) @ ''='' @ QueryEscape (snd kv)"

definition join_pairs :: "(string \<times> string) list \<Rightarrow> string" where
  "join_pairs ps =
     (case ps of [] \<Rightarrow> [] | kv # rest \<Rightarrow> query_pair kv @ concat (map (\<lambda>kv. ''&'' @ query_pair kv) rest))"

section \<open>A concrete environment\<close>

text \<open>
  A small world to run the model in. The world is the number of round trips made so
  far, and decides what the server answers: a look-up of one iPhone at 0 and 1, the
  three answers \<open>DeviceSort\<close> reads from 10 on, a dead network from 100 on, and a 404
  elsewhere; every POST is answered by the vendor's 409 for a device that is already
  registered. One PEM text holds an elliptic-curve key in PKCS#8, another a key in
  PKCS#1.
\<close>

definition demo_device :: "string \<Rightarrow> json" where
  "demo_device cls =
     JObject [''type'' \<mapsto> JString ''devices'',
              ''attributes'' \<mapsto> JObject [''deviceClass'' \<mapsto> JString cls,
                                         ''model'' \<mapsto> JString ''iPhone 15'',
                                         ''platform'' \<mapsto> JString ''IOS'',
                                         ''status'' \<mapsto> JString ''ENABLED'']]"

definition demo_conflict :: "string \<Rightarrow> json option" where
  "demo_conflict =
     [''errors'' \<mapsto> JArray [JObject
        [''status'' \<mapsto> JString ''409'',
         ''detail'' \<mapsto> JString ''A device with number U1 already exists on this team.'']]]"

definition demo_Unmarshal :: "string \<Rightarrow> error + (string \<Rightarrow> json option)" where
  "demo_Unmarshal body =
     (if body = ''one-device'' then Inr [''data'' \<mapsto> JArray [demo_device ''IPHONE'']]
      else if body = ''ios-devices''
      then Inr [''data'' \<mapsto> JArray [demo_device ''IPHONE'', demo_device ''IPAD'',
                                     demo_device ''IPHONE'']]
      else if body = ''mac-devices'' then Inr [''data'' \<mapsto> JArray []]
      else if body = ''users''
      then Inr [''data'' \<mapsto> JArray [JObject [''attributes'' \<mapsto>
                  JObject [''username'' \<mapsto> JString ''dev@example.com'']]]]
      else if body = ''conflict'' then Inr demo_conflict
      else if body = ''not-found''
      then Inr [''errors'' \<mapsto> JArray [JObject [''detail'' \<mapsto> JString ''no such resource'']]]
      else Inl ''invalid character'')"

definition demo_Do :: "int \<Rightarrow> http_Request \<Rightarrow> (error + http_Response) \<times> int" where
  "demo_Do w req =
     (if w \<ge> 100 then Inl ''dial tcp: connection refused''
      else if req_Method req = ''POST'' then Inr \<lparr>StatusCode = 409, resp_Body = Inr ''conflict''\<rparr>
      else if w = 0 \<or> w = 1 then Inr \<lparr>StatusCode = 200, resp_Body = Inr ''one-device''\<rparr>
      else if w = 10 then Inr \<lparr>StatusCode = 200, resp_Body = Inr ''ios-devices''\<rparr>
      else if w = 11 then Inr \<lparr>StatusCode = 200, resp_Body = Inr ''mac-devices''\<rparr>
      else if w = 12 then Inr \<lparr>StatusCode = 200, resp_Body = Inr ''users''\<rparr>
      else Inr \<lparr>StatusCode = 404, resp_Body = Inr ''not-found''\<rparr>,
      w + 1)"

definition demo_env :: "int env" where
  "demo_env =
     \<lparr>pem_Decode = (\<lambda>s. if s = ''PEM-P8-EC''
                         then Some \<lparr>block_Type = ''PRIVATE KEY'', block_Bytes = ''p8-ec''\<rparr>
                         else if s = ''PEM-P1''
                         then Some \<lparr>block_Type = ''RSA PRIVATE KEY'', block_Bytes = ''p1''\<rparr>
                         else None),
      x509_ParsePKCS8PrivateKey = (\<lambda>der. if der = ''p8-ec'' then Inr (AnyECDSA (EcdsaKey ''d''))
                                         else Inl ''x509: failed to parse private key''),
      x509_ParsePKCS1PrivateKey = (\<lambda>der. if der = ''p1'' then Inr (RsaKey ''r'')
                                         else Inl ''x509: failed to parse private key''),
      jwt_SignedString = (\<lambda>w token key. Inr ''header.claims.signature''),
      time_Now = (\<lambda>w. \<lparr>wall_sec = 1700000000 + w, wall_nsec = 500000000\<rparr>),
      os_Stat = (\<lambda>w name. Some ''no such file or directory''),
      os_ReadFile = (\<lambda>w name. Inl ''no such file or directory''),
      strings_ToUpper = map (\<lambda>c. if CHR ''a'' \<le> c \<and> c \<le> CHR ''z''
                                  then char_of (of_char c - (32 :: nat)) else c),
      json_Marshal = (\<lambda>v. Inr ''{}''),
      json_Unmarshal = demo_Unmarshal,
      http_NewRequest = (\<lambda>method url body.
         Inr \<lparr>req_Method = method, req_URL = url, req_Header = Map.empty, req_Body = body\<rparr>),
      http_Do = demo_Do,
      float64_to_int = (\<lambda>x. 0)\<rparr>"

definition demo_config :: Config where
  "demo_config = \<lparr>cfg_Issuer = ''issuer-1'', cfg_KeyID = ''KEY1'', Secret = ''PEM-P8-EC'',
                  cfg_APIVersion = []\<rparr>"

definition demo_client :: Client where
  "demo_client =
     \<lparr>config = demo_config\<lparr>cfg_APIVersion := ''v1''\<rparr>,
      httpClient = \<lparr>hc_config = \<lparr>BaseURL = baseURI, APIVersion = ''v1'', Token = [],
                                 Headers = Map.empty\<rparr>,
                    hc_Timeout = 30 * Second\<rparr>,
      jwtGenerator = \<lparr>gen_config = \<lparr>Issuer = ''issuer-1'', KeyID = ''KEY1'',
                                    PrivateKey = ''PEM-P8-EC''\<rparr>\<rparr>\<rparr>"

definition demo_authorized :: Client where
  "demo_authorized =
     demo_client\<lparr>httpClient := SetToken (httpClient demo_client) ''header.claims.signature''\<rparr>"

definition demo_params :: "(string \<times> string) list" where
  "demo_params = [(''filter[udid]'', ''ABC 123''), (''fields[devices]'', ''model,status'')]"


section \<open>The concrete environment at work\<close>

lemma demo_parse: "parsePrivateKey demo_env (jwtGenerator demo_client) = Inr (EcdsaKey ''d'')"
  by (simp add: parsePrivateKey_def demo_env_def demo_client_def)

lemma demo_now: "valid_Time (time_Now demo_env w)"
  by (simp add: valid_Time_def demo_env_def)

lemma demo_token:
  "GenerateToken demo_env w (jwtGenerator demo_client) = Inr ''header.claims.signature''"
  by (simp add: GenerateToken_def demo_parse Let_def) (simp add: demo_env_def)

section \<open>The token issuer\<close>

lemma time_Unix_Add_seconds:
  assumes "valid_Time t"
  shows "time_Unix (time_Add t ((- 60) * Second)) = time_Unix t - 60"
    and "time_Unix (time_Add t (19 * Minute)) = time_Unix t + 1140"
  using assms
  by (simp_all add: valid_Time_def time_Unix_def time_Add_def Second_def Minute_def
        go_quot_def go_rem_def Let_def)

text \<open>
  C1. Whenever the configured key parses, \<open>GenerateToken\<close> hands the signer a token with
  \<open>iat\<close> 60 seconds before the clock reading and \<open>exp\<close> 19 minutes after it, hence 1200
  seconds apart, with \<open>aud = "appstoreconnect-v1"\<close>, the configured issuer, and a header
  carrying \<open>alg = "ES256"\<close> and the configured key ID; it returns what the signer
  returns for that token, and fails only when the signer does.
\<close>

theorem GenerateToken_claims:
  assumes "parsePrivateKey env g = Inr key" and now: "valid_Time (time_Now env w)"
  shows "\<exists>tok iat exp.
           GenerateToken env w g =
             (case jwt_SignedString env w tok key of
                Inl err \<Rightarrow> Inl (''failed to sign token: '' @ err)
              | Inr tokenString \<Rightarrow> Inr tokenString)
         \<and> Claims tok ''iat'' = Some (ClaimInt iat)
         \<and> Claims tok ''exp'' = Some (ClaimInt exp)
         \<and> iat = time_Unix (time_Now env w) - 60
         \<and> exp = time_Unix (time_Now env w) + 19 * 60
         \<and> exp - iat = 1200
         \<and> Claims tok ''aud'' = Some (ClaimStr ''appstoreconnect-v1'')
         \<and> Claims tok ''iss'' = Some (ClaimStr (Issuer (gen_config g)))
         \<and> Header tok ''alg'' = Some ''ES256''
         \<and> Header tok ''kid'' = Some (KeyID (gen_config g))"
proof -
  define tok where
    "tok = (jwt_NewWithClaims SigningMethodES256
              [''iss'' \<mapsto> ClaimStr (Issuer (gen_config g)),
               ''iat'' \<mapsto> ClaimInt (time_Unix (time_Add (time_Now env w) ((- 60) * Second))),
               ''exp'' \<mapsto> ClaimInt (time_Unix (time_Add (time_Now env w) (19 * Minute))),
               ''aud'' \<mapsto> ClaimStr jwtAud])
            \<lparr>Header := (Header (jwt_NewWithClaims SigningMethodES256 Map.empty))
                          (''kid'' \<mapsto> KeyID (gen_config g))\<rparr>"
  have run: "GenerateToken env w g =
             (case jwt_SignedString env w tok key of
                Inl err \<Rightarrow> Inl (''failed to sign token: '' @ err)
              | Inr tokenString \<Rightarrow> Inr tokenString)"
    using assms(1) by (simp add: GenerateToken_def tok_def Let_def jwt_NewWithClaims_def)
  have iat: "Claims tok ''iat'' = Some (ClaimInt (time_Unix (time_Now env w) - 60))"
    unfolding tok_def jwt_NewWithClaims_def time_Unix_Add_seconds [OF now] by simp
  have exp: "Claims tok ''exp'' = Some (ClaimInt (time_Unix (time_Now env w) + 19 * 60))"
    unfolding tok_def jwt_NewWithClaims_def time_Unix_Add_seconds [OF now] by simp
  have rest: "Claims tok ''aud'' = Some (ClaimStr ''appstoreconnect-v1'')"
    "Claims tok ''iss'' = Some (ClaimStr (Issuer (gen_config g)))"
    "Header tok ''alg'' = Some ''ES256''"
    "Header tok ''kid'' = Some (KeyID (gen_config g))"
    by (simp_all add: tok_def jwt_NewWithClaims_def SigningMethodES256_def jwtAud_def)
  from run iat exp rest show ?thesis
    by (intro exI[of _ tok] exI[of _ "time_Unix (time_Now env w) - 60"]
          exI[of _ "time_Unix (time_Now env w) + 19 * 60"]) simp
qed

theorem GenerateToken_claims_witness:
  "parsePrivateKey demo_env (jwtGenerator demo_client) = Inr (EcdsaKey ''d'')
 \<and> valid_Time (time_Now demo_env 7)
 \<and> (\<exists>tok :: jwt_Token.
        GenerateToken demo_env 7 (jwtGenerator demo_client) = Inr ''header.claims.signature''
      \<and> Claims tok ''iat'' = Some (ClaimInt 1699999947)
      \<and> Claims tok ''exp'' = Some (ClaimInt 1700001147)
      \<and> Claims tok ''aud'' = Some (ClaimStr ''appstoreconnect-v1'')
      \<and> Header tok ''alg'' = Some ''ES256''
      \<and> Header tok ''kid'' = Some ''KEY1'')"
proof -
  from GenerateToken_claims [OF demo_parse demo_now, of 7]
  obtain tok iat exp where t:
    "GenerateToken demo_env 7 (jwtGenerator demo_client) =
             (case jwt_SignedString demo_env 7 tok (EcdsaKey ''d'') of
                Inl err \<Rightarrow> Inl (''failed to sign token: '' @ err)
              | Inr tokenString \<Rightarrow> Inr tokenString)
         \<and> Claims tok ''iat'' = Some (ClaimInt iat)
         \<and> Claims tok ''exp'' = Some (ClaimInt exp)
         \<and> iat = time_Unix (time_Now demo_env 7) - 60
         \<and> exp = time_Unix (time_Now demo_env 7) + 19 * 60
         \<and> exp - iat = 1200
         \<and> Claims tok ''aud'' = Some (ClaimStr ''appstoreconnect-v1'')
         \<and> Claims tok ''iss'' = Some (ClaimStr (Issuer (gen_config (jwtGenerator demo_client))))
         \<and> Header tok ''alg'' = Some ''ES256''
         \<and> Header tok ''kid'' = Some (KeyID (gen_config (jwtGenerator demo_client)))"
    by (elim exE) (erule that)
  have "time_Unix (time_Now demo_env 7) = 1700000007"
    by (simp add: demo_env_def time_Unix_def)
  moreover have "KeyID (gen_config (jwtGenerator demo_client)) = ''KEY1''"
    by (simp add: demo_client_def)
  ultimately have
    "GenerateToken demo_env 7 (jwtGenerator demo_client) = Inr ''header.claims.signature''
      \<and> Claims tok ''iat'' = Some (ClaimInt 1699999947)
      \<and> Claims tok ''exp'' = Some (ClaimInt 1700001147)
      \<and> Claims tok ''aud'' = Some (ClaimStr ''appstoreconnect-v1'')
      \<and> Header tok ''alg'' = Some ''ES256''
      \<and> Header tok ''kid'' = Some ''KEY1''"
    using t demo_token [of 7] by simp
  then have "\<exists>tok :: jwt_Token.
        GenerateToken demo_env 7 (jwtGenerator demo_client) = Inr ''header.claims.signature''
      \<and> Claims tok ''iat'' = Some (ClaimInt 1699999947)
      \<and> Claims tok ''exp'' = Some (ClaimInt 1700001147)
      \<and> Claims tok ''aud'' = Some (ClaimStr ''appstoreconnect-v1'')
      \<and> Header tok ''alg'' = Some ''ES256''
      \<and> Header tok ''kid'' = Some ''KEY1''"
    by (rule exI [of _ tok])
  with demo_parse demo_now [of 7] show ?thesis
    by (intro conjI)
qed

section \<open>The key parser\<close>




lemma demo_headers_empty: "go_index (GetHeaders (httpClient demo_client)) ''Authorization'' = []"
  by (simp add: demo_client_def GetHeaders_def go_index_def)

lemma demo_GetToken: "GetToken demo_env w demo_client = Inr ''header.claims.signature''"
  by (simp add: GetToken_def demo_token)

lemma demo_EnsureAuth: "EnsureAuth demo_env w demo_client = (None, demo_authorized)"
  by (simp add: EnsureAuth_def demo_GetToken demo_headers_empty demo_authorized_def)

lemma demo_EnsureAuth_again: "EnsureAuth demo_env w demo_authorized = (None, demo_authorized)"
  by (simp add: EnsureAuth_def demo_authorized_def demo_client_def GetHeaders_def go_index_def
        SetToken_def)

lemma itoa_404: "itoa 404 = ''404''" and itoa_409: "itoa 409 = ''409''"
  by code_simp+

lemma demo_Get:
  "Get demo_env 0 (httpClient demo_authorized) path params =
     (([''data'' \<mapsto> JArray [demo_device ''IPHONE'']], None), 1)"
  "Get demo_env 1 (httpClient demo_authorized) path params =
     (([''data'' \<mapsto> JArray [demo_device ''IPHONE'']], None), 2)"
  "Get demo_env 10 (httpClient demo_authorized) path params =
     (([''data'' \<mapsto> JArray [demo_device ''IPHONE'', demo_device ''IPAD'', demo_device ''IPHONE'']],
       None), 11)"
  "Get demo_env 11 (httpClient demo_authorized) path params = (([''data'' \<mapsto> JArray []], None), 12)"
  "Get demo_env 12 (httpClient demo_authorized) path params =
     (([''data'' \<mapsto> JArray [JObject [''attributes'' \<mapsto>
          JObject [''username'' \<mapsto> JString ''dev@example.com'']]]], None), 13)"
  "Get demo_env 100 (httpClient demo_authorized) path params =
     ((Map.empty, Some ''failed to send request: dial tcp: connection refused''), 101)"
  by (simp_all add: Get_def Let_def demo_env_def demo_Do_def demo_Unmarshal_def)

lemma demo_PostJSON:
  "PostJSON demo_env 0 (httpClient demo_authorized) path body =
     ((demo_conflict, Some ''API request failed with status 409''), 1)"
  by (simp add: PostJSON_def Let_def demo_env_def demo_Do_def demo_Unmarshal_def itoa_409)


lemma demo_All:
  "DeviceAPI_All demo_env 0 demo_client params =
     (([''data'' \<mapsto> JArray [demo_device ''IPHONE'']], None), demo_authorized, 1)"
  "DeviceAPI_All demo_env 1 demo_authorized params =
     (([''data'' \<mapsto> JArray [demo_device ''IPHONE'']], None), demo_authorized, 2)"
  "DeviceAPI_All demo_env 10 demo_client params =
     (([''data'' \<mapsto> JArray [demo_device ''IPHONE'', demo_device ''IPAD'', demo_device ''IPHONE'']],
       None), demo_authorized, 11)"
  "DeviceAPI_All demo_env 11 demo_authorized params =
     (([''data'' \<mapsto> JArray []], None), demo_authorized, 12)"
  "DeviceAPI_All demo_env 100 demo_client params =
     ((Map.empty, Some ''failed to send request: dial tcp: connection refused''),
      demo_authorized, 101)"
  by (simp_all add: DeviceAPI_All_def demo_EnsureAuth demo_EnsureAuth_again demo_Get)

lemma demo_Register:
  "Register demo_env 0 demo_client name platform udid =
     ((demo_conflict, Some ''API request failed with status 409''), demo_authorized, 1)"
  by (simp add: Register_def demo_EnsureAuth demo_PostJSON Let_def)

lemma demo_lookup:
  "GetDeviceType demo_env 1 demo_authorized udid =
     (Return (\<lparr>Success = True, DeviceClass = ''IPHONE'', Model = ''iPhone 15'',
               Platform = ''IOS'', Status = ''ENABLED'', IsIPhone = True, IsIPad = False,
               IsMac = False, Error = []\<rparr>, None), demo_authorized, 2)"
  "GetDeviceType demo_env 0 demo_client udid =
     (Return (\<lparr>Success = True, DeviceClass = ''IPHONE'', Model = ''iPhone 15'',
               Platform = ''IOS'', Status = ''ENABLED'', IsIPhone = True, IsIPad = False,
               IsMac = False, Error = []\<rparr>, None), demo_authorized, 1)"
  by (simp_all add: GetDeviceType_def demo_All Let_def demo_device_def)

section \<open>Auth gating\<close>

text \<open>
  C3. The transport carries a bearer token when the \<open>Authorization\<close> entry of
  \<open>GetHeaders\<close> is not empty. \<open>EnsureAuth\<close> asks for a token and attaches it exactly when
  that entry is empty, and leaves the client as it is otherwise; with no \<open>Authorization\<close>
  among the extra headers the entry is empty exactly when no token is attached. Once a
  token is attached no call changes the client, whatever the clock says, so after a
  first success that attached a non-empty token every later call returns the same client.
\<close>

theorem EnsureAuth_presence_check:
  "(go_index (GetHeaders (httpClient c)) ''Authorization'' = [] \<longrightarrow>
      EnsureAuth env w c =
        (case GetToken env w c of
           Inl err \<Rightarrow> (Some err, c)
         | Inr token \<Rightarrow> (None, c\<lparr>httpClient := SetToken (httpClient c) token\<rparr>)))
 \<and> (go_index (GetHeaders (httpClient c)) ''Authorization'' \<noteq> [] \<longrightarrow>
      EnsureAuth env w c = (None, c))
 \<and> (Headers (hc_config (httpClient c)) ''Authorization'' = None \<longrightarrow>
      (go_index (GetHeaders (httpClient c)) ''Authorization'' = []) =
      (Token (hc_config (httpClient c)) = []))
 \<and> (Token (hc_config (httpClient c)) \<noteq> [] \<longrightarrow> EnsureAuth env w c = (None, c))
 \<and> (EnsureAuth env w c = (None, c') \<longrightarrow> GetToken env w c \<noteq> Inr [] \<longrightarrow>
        EnsureAuth env w' c' = (None, c'))"
  by (auto simp: EnsureAuth_def GetHeaders_def go_index_def SetToken_def Let_def
           split: sum.splits option.splits if_splits)

theorem EnsureAuth_presence_check_witness:
  "go_index (GetHeaders (httpClient demo_client)) ''Authorization'' = []
 \<and> Token (hc_config (httpClient demo_authorized)) = ''header.claims.signature''
 \<and> EnsureAuth demo_env 0 demo_client = (None, demo_authorized)
 \<and> EnsureAuth demo_env 5 demo_authorized = (None, demo_authorized)"
proof -
  note inst = EnsureAuth_presence_check
    [where c = demo_client and env = demo_env and w = 0 and w' = 5 and c' = demo_authorized]
  from inst demo_headers_empty demo_GetToken [of 0]
  have first: "EnsureAuth demo_env 0 demo_client = (None, demo_authorized)"
    by (simp add: demo_authorized_def)
  with inst demo_GetToken [of 0]
  have again: "EnsureAuth demo_env 5 demo_authorized = (None, demo_authorized)"
    by simp
  have "Token (hc_config (httpClient demo_authorized)) = ''header.claims.signature''"
    by (simp add: demo_authorized_def SetToken_def)
  with demo_headers_empty first again show ?thesis by simp
qed

section \<open>Client construction\<close>

text \<open>
  C9. \<open>NewClient\<close> fails with one of its three configuration errors when the issuer, the
  key ID or the secret is empty. With the three non-empty it fails with none of them, a
  client it returns has the API version given, or \<open>v1\<close> when none was given, and it does
  return a client when the secret is not the name of a file. \<open>NewGenerator\<close> succeeds
  exactly when issuer, key ID and key are non-empty.
\<close>

theorem NewClient_config_checks:
  "((cfg_Issuer cfg = [] \<or> cfg_KeyID cfg = [] \<or> Secret cfg = []) \<longrightarrow>
      NewClient env w cfg \<in> {Inl ''issuer is required'', Inl ''key id is required'',
                               Inl ''secret is required''})
 \<and> (cfg_Issuer cfg \<noteq> [] \<and> cfg_KeyID cfg \<noteq> [] \<and> Secret cfg \<noteq> [] \<longrightarrow>
      NewClient env w cfg \<notin> {Inl ''issuer is required'', Inl ''key id is required'',
                               Inl ''secret is required''}
    \<and> (\<forall>c. NewClient env w cfg = Inr c \<longrightarrow>
          cfg_APIVersion (config c) = (if cfg_APIVersion cfg = [] then ''v1'' else cfg_APIVersion cfg)
        \<and> APIVersion (hc_config (httpClient c)) = cfg_APIVersion (config c))
    \<and> (os_Stat env w (Secret cfg) \<noteq> None \<longrightarrow> (\<exists>c. NewClient env w cfg = Inr c)))
 \<and> ((\<exists>g. NewGenerator jc = Inr g) = (Issuer jc \<noteq> [] \<and> KeyID jc \<noteq> [] \<and> PrivateKey jc \<noteq> []))"
  by (auto simp: NewClient_def NewGenerator_def Let_def defaultAPIVersion_def httpclient_NewClient_def
           split: sum.splits option.splits if_splits)

lemma demo_NewClient: "NewClient demo_env 0 demo_config = Inr demo_client"
  by (simp add: NewClient_def demo_config_def demo_client_def NewGenerator_def Let_def
       defaultAPIVersion_def httpclient_NewClient_def demo_env_def)

theorem NewClient_config_checks_witness:
  "cfg_Issuer demo_config \<noteq> [] \<and> cfg_KeyID demo_config \<noteq> [] \<and> Secret demo_config \<noteq> []
 \<and> cfg_APIVersion demo_config = []
 \<and> NewClient demo_env 0 demo_config = Inr demo_client
 \<and> cfg_APIVersion (config demo_client) = ''v1''
 \<and> APIVersion (hc_config (httpClient demo_client)) = ''v1''
 \<and> NewClient demo_env 0 (demo_config\<lparr>cfg_KeyID := []\<rparr>) = Inl ''key id is required''"
proof -
  have ne: "cfg_Issuer demo_config \<noteq> [] \<and> cfg_KeyID demo_config \<noteq> [] \<and> Secret demo_config \<noteq> []"
    and unset: "cfg_APIVersion demo_config = []"
    by (simp_all add: demo_config_def)
  from NewClient_config_checks [of demo_config demo_env 0] ne unset demo_NewClient
  have v: "cfg_APIVersion (config demo_client) = ''v1''
         \<and> APIVersion (hc_config (httpClient demo_client)) = ''v1''"
    by simp
  have "NewClient demo_env 0 (demo_config\<lparr>cfg_KeyID := []\<rparr>) = Inl ''key id is required''"
    using NewClient_config_checks [of "demo_config\<lparr>cfg_KeyID := []\<rparr>" demo_env 0]
    by (simp add: NewClient_def demo_config_def)
  with ne unset demo_NewClient v show ?thesis by simp
qed

section \<open>The flags of a device type\<close>

lemma GetDeviceType_outcomes:
  assumes "Q Panic"
    and "\<And>msg. Q (Return (DeviceType_failure msg, None))"
    and "\<And>dc m p s. Q (Return (\<lparr>Success = True, DeviceClass = dc, Model = m, Platform = p,
                 Status = s, IsIPhone = (dc = ''IPHONE''), IsIPad = (dc = ''IPAD''),
                 IsMac = (dc = ''MAC''), Error = []\<rparr>, None))"
  shows "Q (fst (GetDeviceType env w c udid))"
  unfolding GetDeviceType_def Let_def
  by (simp add: assms split: prod.split option.split)

lemma RegisterAndGetType_outcomes:
  assumes "Q Panic"
    and "\<And>msg. Q (Return (DeviceType_failure msg, None))"
    and "\<And>dc m p s. Q (Return (\<lparr>Success = True, DeviceClass = dc, Model = m, Platform = p,
                 Status = s, IsIPhone = (dc = ''IPHONE''), IsIPad = (dc = ''IPAD''),
                 IsMac = (dc = ''MAC''), Error = []\<rparr>, None))"
  shows "Q (fst (RegisterAndGetType env w c name platform udid))"
  unfolding RegisterAndGetType_def Let_def
  by (simp add: assms GetDeviceType_outcomes [of Q] split: prod.split option.split)

text \<open>
  C10. In every \<open>DeviceType\<close> that \<open>GetDeviceType\<close> or \<open>RegisterAndGetType\<close> returns, each
  of the three flags says whether the device class is the matching constant, no two
  flags are set together, and none is set in a result that is not a success.
\<close>

theorem DeviceType_flags:
  "\<forall>r e. fst (GetDeviceType env w c udid) = Return (r, e)
          \<or> fst (RegisterAndGetType env w c name platform udid) = Return (r, e) \<longrightarrow>
         IsIPhone r = (DeviceClass r = ''IPHONE'')
       \<and> IsIPad r = (DeviceClass r = ''IPAD'')
       \<and> IsMac r = (DeviceClass r = ''MAC'')
       \<and> \<not> (IsIPhone r \<and> IsIPad r) \<and> \<not> (IsIPhone r \<and> IsMac r) \<and> \<not> (IsIPad r \<and> IsMac r)
       \<and> (\<not> Success r \<longrightarrow> \<not> IsIPhone r \<and> \<not> IsIPad r \<and> \<not> IsMac r)"
proof -
  let ?ok = "\<lambda>r. IsIPhone r = (DeviceClass r = ''IPHONE'')
       \<and> IsIPad r = (DeviceClass r = ''IPAD'')
       \<and> IsMac r = (DeviceClass r = ''MAC'')
       \<and> \<not> (IsIPhone r \<and> IsIPad r) \<and> \<not> (IsIPhone r \<and> IsMac r) \<and> \<not> (IsIPad r \<and> IsMac r)
       \<and> (\<not> Success r \<longrightarrow> \<not> IsIPhone r \<and> \<not> IsIPad r \<and> \<not> IsMac r)"
  let ?Q = "\<lambda>out. \<forall>r e. out = Return (r, e) \<longrightarrow> ?ok r"
  have g: "?Q (fst (GetDeviceType env w c udid))"
    by (rule GetDeviceType_outcomes) (auto simp: DeviceType_failure_def)
  have r: "?Q (fst (RegisterAndGetType env w c name platform udid))"
    by (rule RegisterAndGetType_outcomes) (auto simp: DeviceType_failure_def)
  from g r show ?thesis by blast
qed

theorem DeviceType_flags_witness:
  "fst (GetDeviceType demo_env 0 demo_client ''U1'')
     = Return (\<lparr>Success = True, DeviceClass = ''IPHONE'', Model = ''iPhone 15'',
                 Platform = ''IOS'', Status = ''ENABLED'', IsIPhone = True, IsIPad = False,
                 IsMac = False, Error = []\<rparr>, None)
 \<and> fst (RegisterAndGetType demo_env 0 demo_client ''phone'' ''IOS'' ''U1'')
     = Return (DeviceType_failure ''API request failed with status 409'', None)
 \<and> \<not> IsIPhone (DeviceType_failure ''API request failed with status 409'')
 \<and> \<not> IsIPad (DeviceType_failure ''API request failed with status 409'')
 \<and> \<not> IsMac (DeviceType_failure ''API request failed with status 409'')"
proof -
  have a: "fst (GetDeviceType demo_env 0 demo_client ''U1'')
     = Return (\<lparr>Success = True, DeviceClass = ''IPHONE'', Model = ''iPhone 15'',
                 Platform = ''IOS'', Status = ''ENABLED'', IsIPhone = True, IsIPad = False,
                 IsMac = False, Error = []\<rparr>, None)"
    by (simp add: demo_lookup)
  have b: "fst (RegisterAndGetType demo_env 0 demo_client ''phone'' ''IOS'' ''U1'')
     = Return (DeviceType_failure ''API request failed with status 409'', None)"
    by (simp add: RegisterAndGetType_def demo_Register)
  have s: "\<not> Success (DeviceType_failure ''API request failed with status 409'')"
    by (simp add: DeviceType_failure_def)
  from DeviceType_flags [of demo_env 0 demo_client "''U1''" "''phone''" "''IOS''"] b s
  have "\<not> IsIPhone (DeviceType_failure ''API request failed with status 409'')
      \<and> \<not> IsIPad (DeviceType_failure ''API request failed with status 409'')
      \<and> \<not> IsMac (DeviceType_failure ''API request failed with status 409'')"
    by blast
  with a b show ?thesis by simp
qed

section \<open>Errors of the device helpers\<close>

text \<open>
  C7, as the code has it. When the listing call fails, \<open>GetDeviceType\<close> returns a result
  with \<open>Success = false\<close> whose \<open>Error\<close> field is the message of the failure, and a nil
  error; \<open>RegisterAndGetType\<close> does the same when the registration call fails. The error
  either of them returns is always nil.
\<close>

theorem device_failures_in_result:
  "(DeviceAPI_All env w c [(''filter[udid]'', udid),
        (''fields[devices]'', ''deviceClass,model,platform,status'')] = ((response, Some err), c', w') \<longrightarrow>
      GetDeviceType env w c udid = (Return (DeviceType_failure err, None), c', w'))
 \<and> (Register env w c name platform udid = ((registration, Some err), c', w') \<longrightarrow>
      RegisterAndGetType env w c name platform udid
        = (Return (DeviceType_failure err, None), c', w'))
 \<and> (\<forall>r e. fst (GetDeviceType env w c udid) = Return (r, e)
          \<or> fst (RegisterAndGetType env w c name platform udid) = Return (r, e) \<longrightarrow> e = None)"
proof -
  let ?Q = "\<lambda>out. \<forall>r e. out = Return (r :: DeviceType, e) \<longrightarrow> e = (None :: error option)"
  have g: "?Q (fst (GetDeviceType env w c udid))"
    by (rule GetDeviceType_outcomes) auto
  have r: "?Q (fst (RegisterAndGetType env w c name platform udid))"
    by (rule RegisterAndGetType_outcomes) auto
  have "DeviceAPI_All env w c [(''filter[udid]'', udid),
        (''fields[devices]'', ''deviceClass,model,platform,status'')] = ((response, Some err), c', w') \<longrightarrow>
      GetDeviceType env w c udid = (Return (DeviceType_failure err, None), c', w')"
    by (simp add: GetDeviceType_def)
  moreover have "Register env w c name platform udid = ((registration, Some err), c', w') \<longrightarrow>
      RegisterAndGetType env w c name platform udid
        = (Return (DeviceType_failure err, None), c', w')"
    by (simp add: RegisterAndGetType_def)
  ultimately show ?thesis using g r by blast
qed

theorem device_failures_in_result_witness:
  "Register demo_env 0 demo_client ''phone'' ''IOS'' ''U1''
     = ((demo_conflict, Some ''API request failed with status 409''), demo_authorized, 1)
 \<and> RegisterAndGetType demo_env 0 demo_client ''phone'' ''IOS'' ''U1''
     = (Return (DeviceType_failure ''API request failed with status 409'', None), demo_authorized, 1)"
  using device_failures_in_result [where env = demo_env and w = 0 and c = demo_client
      and name = "''phone''" and platform = "''IOS''" and udid = "''U1''"
      and registration = demo_conflict and err = "''API request failed with status 409''"
      and c' = demo_authorized and w' = 1]
    demo_Register [of "''phone''" "''IOS''" "''U1''"]
  by simp

text \<open>
  C7 as stated fails: with the network down the listing call returns an error, and
  \<open>GetDeviceType\<close> returns a nil error to its caller.
\<close>

theorem GetDeviceType_nil_error_counterexample:
  "DeviceAPI_All demo_env 100 demo_client
       [(''filter[udid]'', ''U1''), (''fields[devices]'', ''deviceClass,model,platform,status'')]
     = ((Map.empty, Some ''failed to send request: dial tcp: connection refused''),
        demo_authorized, 101)
 \<and> GetDeviceType demo_env 100 demo_client ''U1''
     = (Return (DeviceType_failure ''failed to send request: dial tcp: connection refused'', None),
        demo_authorized, 101)"
  by (simp add: GetDeviceType_def demo_All)

section \<open>Registering a device that exists\<close>

text \<open>
  When the registration call returns no error and its answer carries an error detail,
  the helper does what its comment says: it looks the device up when the detail
  contains \<open>already exists on this team\<close>, and fails with the detail otherwise.
\<close>

lemma RegisterAndGetType_fallback_without_error:
  assumes "Register env w c name platform udid = ((registration, None), c', w')"
    and "as_array (registration ''errors'') = Some (JObject e0 # errors)"
    and "as_string (e0 ''detail'') = Some errorDetail"
  shows "RegisterAndGetType env w c name platform udid =
           (if strings_Contains errorDetail ''already exists on this team''
            then GetDeviceType env w' c' udid
            else (Return (DeviceType_failure errorDetail, None), c', w'))"
  using assms by (simp add: RegisterAndGetType_def Let_def)

text \<open>
  C4 on the transport of this repository. The vendor answers the registration of a
  device that exists with status 409 and an error detail that contains
  \<open>already exists on this team\<close>. The transport returns that body with an error, and
  \<open>RegisterAndGetType\<close> returns the failure \<open>API request failed with status 409\<close> after
  one round trip, although the look-up by UDID would have found the device.
\<close>

theorem RegisterAndGetType_conflict_409:
  "Register demo_env 0 demo_client ''phone'' ''IOS'' ''U1''
     = ((demo_conflict, Some ''API request failed with status 409''), demo_authorized, 1)
 \<and> demo_conflict ''errors''
     = Some (JArray [JObject [''status'' \<mapsto> JString ''409'',
          ''detail'' \<mapsto> JString ''A device with number U1 already exists on this team.'']])
 \<and> strings_Contains ''A device with number U1 already exists on this team.''
       ''already exists on this team''
 \<and> RegisterAndGetType demo_env 0 demo_client ''phone'' ''IOS'' ''U1''
     = (Return (DeviceType_failure ''API request failed with status 409'', None), demo_authorized, 1)
 \<and> fst (GetDeviceType demo_env 1 demo_authorized ''U1'')
     = Return (\<lparr>Success = True, DeviceClass = ''IPHONE'', Model = ''iPhone 15'',
                 Platform = ''IOS'', Status = ''ENABLED'', IsIPhone = True, IsIPad = False,
                 IsMac = False, Error = []\<rparr>, None)"
proof -
  have "strings_Contains ''A device with number U1 already exists on this team.''
       ''already exists on this team''"
    by code_simp
  then show ?thesis
    by (simp add: demo_Register RegisterAndGetType_def demo_lookup) (simp add: demo_conflict_def)
qed

section \<open>The transport on a failure status\<close>

text \<open>
  C6. When the request is sent, the response body is read and parses as JSON, and the
  status code is 400 or more, each of \<open>Get\<close>, \<open>PostJSON\<close> and \<open>Delete\<close> returns the parsed
  body together with the error \<open>API request failed with status N\<close>.
\<close>

theorem transport_error_with_body:
  "(http_NewRequest env ''GET''
        (BuildURL c path @
           (if length params > 0
            then ''?'' @ Values_Encode (fold (\<lambda>(k, v) values. Values_Add values k v) params [])
            else [])) None = Inr req \<longrightarrow>
    http_Do env w (req\<lparr>req_Header := req_Header req ++ GetHeaders c\<rparr>) = (Inr resp, w') \<longrightarrow>
    resp_Body resp = Inr body \<longrightarrow> json_Unmarshal env body = Inr result \<longrightarrow>
    StatusCode resp \<ge> 400 \<longrightarrow>
      Get env w c path params
        = ((result, Some (''API request failed with status '' @ itoa (StatusCode resp))), w'))
 \<and> (json_Marshal env payload = Inr jsonBody \<longrightarrow>
    http_NewRequest env ''POST'' (BuildURL c path) (Some jsonBody) = Inr req \<longrightarrow>
    http_Do env w (req\<lparr>req_Header := req_Header req ++
        (GetHeaders c)(''Content-Type'' \<mapsto> ''application/json'')\<rparr>) = (Inr resp, w') \<longrightarrow>
    resp_Body resp = Inr body \<longrightarrow> json_Unmarshal env body = Inr result \<longrightarrow>
    StatusCode resp \<ge> 400 \<longrightarrow>
      PostJSON env w c path payload
        = ((result, Some (''API request failed with status '' @ itoa (StatusCode resp))), w'))
 \<and> (http_NewRequest env ''DELETE''
        (BuildURL c path @
           (if length params > 0
            then ''?'' @ Values_Encode (fold (\<lambda>(k, v) values. Values_Add values k v) params [])
            else [])) None = Inr req \<longrightarrow>
    http_Do env w (req\<lparr>req_Header := req_Header req ++ GetHeaders c\<rparr>) = (Inr resp, w') \<longrightarrow>
    resp_Body resp = Inr body \<longrightarrow> json_Unmarshal env body = Inr result \<longrightarrow>
    StatusCode resp \<ge> 400 \<longrightarrow>
      Delete env w c path params
        = ((result, Some (''API request failed with status '' @ itoa (StatusCode resp))), w'))"
  by (simp add: Get_def PostJSON_def Delete_def Let_def)

theorem transport_error_with_body_witness:
  "PostJSON demo_env 0 (httpClient demo_authorized) ''/devices'' JNull
     = ((demo_conflict, Some ''API request failed with status 409''), 1)
 \<and> Get demo_env 50 (httpClient demo_authorized) ''/devices/X'' []
     = (([''errors'' \<mapsto> JArray [JObject [''detail'' \<mapsto> JString ''no such resource'']]],
         Some ''API request failed with status 404''), 51)
 \<and> Delete demo_env 50 (httpClient demo_authorized) ''/devices/X'' []
     = (([''errors'' \<mapsto> JArray [JObject [''detail'' \<mapsto> JString ''no such resource'']]],
         Some ''API request failed with status 404''), 51)"
proof -
  let ?c = "httpClient demo_authorized"
  let ?notfound = "[''errors'' \<mapsto> JArray [JObject [''detail'' \<mapsto> JString ''no such resource'']]]"
  note inst = transport_error_with_body
    [where env = demo_env and c = ?c and path = "''/devices/X''" and params = "[]"
       and w = 50 and w' = 51
       and req = "\<lparr>req_Method = ''GET'', req_URL = BuildURL ?c ''/devices/X'',
                    req_Header = Map.empty, req_Body = None\<rparr>"
       and resp = "\<lparr>StatusCode = 404, resp_Body = Inr ''not-found''\<rparr>"
       and body = "''not-found''" and result = ?notfound]
  have get: "Get demo_env 50 ?c ''/devices/X'' [] = ((?notfound, Some ''API request failed with status 404''), 51)"
    using inst [THEN conjunct1]
    by (simp add: demo_env_def demo_Do_def demo_Unmarshal_def itoa_404)
  note inst_del = transport_error_with_body
    [where env = demo_env and c = ?c and path = "''/devices/X''" and params = "[]"
       and w = 50 and w' = 51
       and req = "\<lparr>req_Method = ''DELETE'', req_URL = BuildURL ?c ''/devices/X'',
                    req_Header = Map.empty, req_Body = None\<rparr>"
       and resp = "\<lparr>StatusCode = 404, resp_Body = Inr ''not-found''\<rparr>"
       and body = "''not-found''" and result = ?notfound]
  have del: "Delete demo_env 50 ?c ''/devices/X'' [] = ((?notfound, Some ''API request failed with status 404''), 51)"
    using inst_del [THEN conjunct2, THEN conjunct2]
    by (simp add: demo_env_def demo_Do_def demo_Unmarshal_def itoa_404)
  note inst_post = transport_error_with_body
    [where env = demo_env and c = ?c and path = "''/devices''" and payload = JNull
       and jsonBody = "''{}''" and w = 0 and w' = 1
       and req = "\<lparr>req_Method = ''POST'', req_URL = BuildURL ?c ''/devices'',
                    req_Header = Map.empty, req_Body = Some ''{}''\<rparr>"
       and resp = "\<lparr>StatusCode = 409, resp_Body = Inr ''conflict''\<rparr>"
       and body = "''conflict''" and result = demo_conflict]
  have post: "PostJSON demo_env 0 ?c ''/devices'' JNull = ((demo_conflict, Some ''API request failed with status 409''), 1)"
    using inst_post [THEN conjunct2, THEN conjunct1]
    by (simp add: demo_env_def demo_Do_def demo_Unmarshal_def itoa_409)
  from get del post show ?thesis by simp
qed

section \<open>Device slots\<close>

lemma DeviceSort_count_eq:
  "DeviceSort_count data (a, b) =
     (a + int (devices_of_class ''IPHONE'' data), b + int (devices_of_class ''IPAD'' data))"
proof (induction data arbitrary: a b)
  case Nil
  show ?case by (simp add: devices_of_class_def)
next
  case (Cons item rest)
  show ?case
    by (cases item)
       (auto simp: Cons.IH devices_of_class_def device_class_of_def
             split: option.splits json.splits)
qed

lemma count_listing:
  "(case as_array (listing ''data'') of
      Some data \<Rightarrow> DeviceSort_count data (0, 0)
    | None \<Rightarrow> (0, 0))
   = (int (devices_of_class ''IPHONE'' (listing_data listing)),
      int (devices_of_class ''IPAD'' (listing_data listing)))"
proof (cases "listing ''data''")
  case None
  then show ?thesis by (simp add: listing_data_def devices_of_class_def)
next
  case (Some v)
  then show ?thesis
    by (cases v) (simp_all add: listing_data_def devices_of_class_def DeviceSort_count_eq)
qed

lemma DeviceSort_outcomes:
  assumes ios: "DeviceAPI_All env w c
      [(''filter[platform]'', ''IOS''), (''fields[devices]'', ''deviceClass''), (''limit'', ''200'')]
      = ((iOSData, None), c1, w1)"
    and "Q Panic"
    and "\<And>err. Q (Return (\<lparr>Code = 0, Msg = [], Data = DataInfo_zero\<rparr>, Some err))"
    and "\<And>msg. Q (Return (\<lparr>Code = 1001, Msg = msg, Data = DataInfo_zero\<rparr>, None))"
    and "\<And>mac email. Q (Return (\<lparr>Code = 1, Msg = ''ok'',
           Data = \<lparr>IPHONE = 100 - int (devices_of_class ''IPHONE'' (listing_data iOSData)),
                   IPAD = 100 - int (devices_of_class ''IPAD'' (listing_data iOSData)),
                   MAC = 100 - mac, Email = email\<rparr>\<rparr>, None))"
  shows "Q (fst (DeviceSort env w c))"
proof -
  obtain macData merr c2 w2 where mac: "DeviceAPI_All env w1 c1
      [(''filter[platform]'', ''MAC_OS''), (''fields[devices]'', ''deviceClass'')]
      = ((macData, merr), c2, w2)"
    by (metis prod.exhaust)
  obtain userData uerr w3 where users:
    "Get env w2 (httpClient c2) ''/users'' [] = ((userData, uerr), w3)"
    by (metis prod.exhaust)
  note run = DeviceSort_def Let_def ios mac users count_listing assms(2-)
  show ?thesis
  proof (cases merr)
    case (Some e)
    then show ?thesis by (simp add: run)
  next
    case None
    have counted: "as_array (macData ''errors'') = None \<or> as_array (macData ''errors'') = Some []
        \<or> (\<exists>errors e0. as_array (macData ''errors'') = Some errors \<and> errors \<noteq> []
              \<and> as_object (Some (errors ! 0)) = Some e0 \<and> as_string (e0 ''detail'') = None)
        \<Longrightarrow> ?thesis"
      using None by (cases uerr) (auto simp add: run)
    show ?thesis
    proof (cases "as_array (macData ''errors'')")
      case None
      then show ?thesis by (simp add: counted)
    next
      case (Some errors)
      note errs = this
      show ?thesis
      proof (cases "errors = []")
        case True
        with errs show ?thesis by (simp add: counted)
      next
        case False
        note ne = this
        show ?thesis
        proof (cases "as_object (Some (errors ! 0))")
          case None
          with errs ne \<open>merr = None\<close> show ?thesis by (simp add: run)
        next
          case (Some e0)
          note obj = this
          show ?thesis
          proof (cases "as_string (e0 ''detail'')")
            case None
            with errs ne obj show ?thesis by (intro counted) simp
          next
            case (Some d)
            with errs ne obj \<open>merr = None\<close> show ?thesis by (simp add: run)
          qed
        qed
      qed
    qed
  qed
qed

text \<open>
  C5. Let the answer to the listing of iOS devices hold N devices of class \<open>IPHONE\<close> and
  M of class \<open>IPAD\<close> in its data array. Whenever \<open>DeviceSort\<close> returns its result with code
  1, the result holds \<open>IPHONE = 100 - N\<close> and \<open>IPAD = 100 - M\<close> and the error is nil; and it
  does return such a result when the listing of Mac devices succeeds without an error
  entry and the query of the user succeeds.
\<close>

theorem DeviceSort_slots:
  assumes ios: "DeviceAPI_All env w c
      [(''filter[platform]'', ''IOS''), (''fields[devices]'', ''deviceClass''), (''limit'', ''200'')]
      = ((iOSData, None), c1, w1)"
  shows "(DeviceSort env w c = (Return (r, e), c', w') \<longrightarrow> Code r = 1 \<longrightarrow>
            e = None
          \<and> IPHONE (Data r) = 100 - int (devices_of_class ''IPHONE'' (listing_data iOSData))
          \<and> IPAD (Data r) = 100 - int (devices_of_class ''IPAD'' (listing_data iOSData)))
       \<and> (DeviceAPI_All env w1 c1
             [(''filter[platform]'', ''MAC_OS''), (''fields[devices]'', ''deviceClass'')]
             = ((macData, None), c2, w2) \<longrightarrow>
          as_array (macData ''errors'') = None \<or> as_array (macData ''errors'') = Some [] \<longrightarrow>
          Get env w2 (httpClient c2) ''/users'' [] = ((userData, None), w3) \<longrightarrow>
            (\<exists>res. DeviceSort env w c = (Return (res, None), c2, w3) \<and> Code res = 1
              \<and> IPHONE (Data res) = 100 - int (devices_of_class ''IPHONE'' (listing_data iOSData))
              \<and> IPAD (Data res) = 100 - int (devices_of_class ''IPAD'' (listing_data iOSData))))"
proof (intro conjI impI)
  let ?Q = "\<lambda>out. \<forall>r e. out = Return (r, e) \<longrightarrow> Code r = 1 \<longrightarrow>
            e = (None :: error option)
          \<and> IPHONE (Data r) = 100 - int (devices_of_class ''IPHONE'' (listing_data iOSData))
          \<and> IPAD (Data r) = 100 - int (devices_of_class ''IPAD'' (listing_data iOSData))"
  have q: "?Q (fst (DeviceSort env w c))"
    by (rule DeviceSort_outcomes [OF ios]) simp_all
  assume run: "DeviceSort env w c = (Return (r, e), c', w')" and ok: "Code r = 1"
  from run have "fst (DeviceSort env w c) = Return (r, e)" by simp
  with q ok show "e = None"
    and "IPHONE (Data r) = 100 - int (devices_of_class ''IPHONE'' (listing_data iOSData))"
    and "IPAD (Data r) = 100 - int (devices_of_class ''IPAD'' (listing_data iOSData))"
    by blast+
next
  assume mac: "DeviceAPI_All env w1 c1
             [(''filter[platform]'', ''MAC_OS''), (''fields[devices]'', ''deviceClass'')]
             = ((macData, None), c2, w2)"
    and noerr: "as_array (macData ''errors'') = None \<or> as_array (macData ''errors'') = Some []"
    and users: "Get env w2 (httpClient c2) ''/users'' [] = ((userData, None), w3)"
  from noerr show "\<exists>res. DeviceSort env w c = (Return (res, None), c2, w3) \<and> Code res = 1
              \<and> IPHONE (Data res) = 100 - int (devices_of_class ''IPHONE'' (listing_data iOSData))
              \<and> IPAD (Data res) = 100 - int (devices_of_class ''IPAD'' (listing_data iOSData))"
  proof
    assume "as_array (macData ''errors'') = None"
    then show ?thesis
      by (simp add: DeviceSort_def Let_def ios mac users count_listing)
  next
    assume "as_array (macData ''errors'') = Some []"
    then show ?thesis
      by (simp add: DeviceSort_def Let_def ios mac users count_listing)
  qed
qed

theorem DeviceSort_slots_witness:
  "devices_of_class ''IPHONE'' [demo_device ''IPHONE'', demo_device ''IPAD'', demo_device ''IPHONE''] = 2
 \<and> devices_of_class ''IPAD'' [demo_device ''IPHONE'', demo_device ''IPAD'', demo_device ''IPHONE''] = 1
 \<and> (\<exists>res. DeviceSort demo_env 10 demo_client = (Return (res, None), demo_authorized, 13)
        \<and> Code res = 1 \<and> IPHONE (Data res) = 98 \<and> IPAD (Data res) = 99)"
proof -
  let ?devs = "[demo_device ''IPHONE'', demo_device ''IPAD'', demo_device ''IPHONE'']"
  have n: "devices_of_class ''IPHONE'' ?devs = 2" and m: "devices_of_class ''IPAD'' ?devs = 1"
    by (simp_all add: devices_of_class_def device_class_of_def demo_device_def)
  have l: "listing_data [''data'' \<mapsto> JArray ?devs] = ?devs"
    by (simp add: listing_data_def)
  have e: "as_array ([''data'' \<mapsto> JArray []] ''errors'') = None
           \<or> as_array ([''data'' \<mapsto> JArray []] ''errors'') = Some []"
    by simp
  from DeviceSort_slots [OF demo_All(3), THEN conjunct2, rule_format, OF demo_All(4) e demo_Get(5)]
  have "\<exists>res. DeviceSort demo_env 10 demo_client = (Return (res, None), demo_authorized, 13)
        \<and> Code res = 1 \<and> IPHONE (Data res) = 98 \<and> IPAD (Data res) = 99"
    by (simp add: n m l)
  with n m show ?thesis by simp
qed

section \<open>Query parameters\<close>

lemma upperhex_cases:
  assumes "n < 16"
  shows "ishex (upperhex n) \<and> unhex (upperhex n) = n
       \<and> upperhex n \<noteq> CHR ''&'' \<and> upperhex n \<noteq> CHR '';'' \<and> upperhex n \<noteq> CHR ''=''"
proof -
  from assms have "n \<in> set [0..<16]" by simp
  then have "n \<in> {0, 1, 2, 3, 4, 5, 6, 7, 8, 9, 10, 11, 12, 13, 14, 15}"
    by (simp add: upt_rec numeral_eq_Suc) 
  then show ?thesis
    by (elim insertE emptyE) (simp_all add: upperhex_def ishex_def unhex_def less_eq_char_def)
qed

lemma shouldEscape_special:
  "shouldEscape CHR ''%''" "shouldEscape CHR ''+''" "shouldEscape CHR ''&''"
  "shouldEscape CHR '';''" "shouldEscape CHR ''=''"
  by (simp_all add: shouldEscape_def less_eq_char_def)

lemma QueryEscape_Cons: "QueryEscape (c # s) = escape_char c @ QueryEscape s"
  by (simp add: QueryEscape_def escape_char_def)

lemma QueryEscape_Nil: "QueryEscape [] = []"
  by (simp add: QueryEscape_def)

lemma hex_digits_of_char:
  "of_char c div 16 < (16::nat)" "of_char c mod 16 < (16::nat)"
  using nat_of_char_less_256 [of c] by (simp_all add: less_mult_imp_div_less)

lemma QueryUnescape_escape_char:
  "QueryUnescape (escape_char c @ rest) =
     (case QueryUnescape rest of Inl err \<Rightarrow> Inl err | Inr t \<Rightarrow> Inr (c # t))"
proof (cases "c = CHR '' ''")
  case True
  then show ?thesis by (auto simp: escape_char_def)
next
  case False
  note nsp = this
  show ?thesis
  proof (cases "shouldEscape c")
    case True
    have "char_of (unhex (upperhex (of_char c div 16)) * 16
                 + unhex (upperhex (of_char c mod 16))) = c"
      by (simp add: upperhex_cases hex_digits_of_char)
    with True nsp show ?thesis
      by (simp add: escape_char_def upperhex_cases hex_digits_of_char split: sum.split)
  next
    case False
    with shouldEscape_special have "c \<noteq> CHR ''%''" "c \<noteq> CHR ''+''" by auto
    with False nsp show ?thesis by (simp add: escape_char_def)
  qed
qed

lemma QueryUnescape_QueryEscape: "QueryUnescape (QueryEscape s) = Inr s"
  by (induction s) (simp_all add: QueryEscape_Nil QueryEscape_Cons QueryUnescape_escape_char)

lemma escape_char_plain:
  assumes "x \<in> set (escape_char c)"
  shows "x \<noteq> CHR ''&'' \<and> x \<noteq> CHR '';'' \<and> x \<noteq> CHR ''=''"
proof (cases "c = CHR '' '' \<or> shouldEscape c")
  case True
  with assms show ?thesis
    by (auto simp: escape_char_def upperhex_cases hex_digits_of_char split: if_splits)
next
  case False
  with assms have "x = c" and "\<not> shouldEscape x" by (auto simp: escape_char_def)
  with shouldEscape_special show ?thesis by auto
qed

lemma QueryEscape_plain:
  "CHR ''&'' \<notin> set (QueryEscape s)" "CHR '';'' \<notin> set (QueryEscape s)"
  "CHR ''='' \<notin> set (QueryEscape s)"
  by (induction s) (auto simp: QueryEscape_Nil QueryEscape_Cons dest: escape_char_plain)

lemma strings_Cut_found:
  "sep \<notin> set a \<Longrightarrow> strings_Cut (a @ sep # b) sep = (a, b)"
proof -
  assume "sep \<notin> set a"
  then have "\<forall>x\<in>set a. x \<noteq> sep" by auto
  then show ?thesis
    by (simp add: strings_Cut_def takeWhile_append2 dropWhile_append2)
qed

lemma strings_Cut_not_found:
  "sep \<notin> set a \<Longrightarrow> strings_Cut a sep = (a, [])"
proof -
  assume "sep \<notin> set a"
  then have "\<forall>x\<in>set a. x \<noteq> sep" by auto
  then have tw: "takeWhile (\<lambda>c. c \<noteq> sep) a = a" and dw: "dropWhile (\<lambda>c. c \<noteq> sep) a = []"
    by simp_all
  show ?thesis
    unfolding strings_Cut_def tw dw by simp
qed

lemma query_pair_nonempty: "query_pair kv \<noteq> []"
  by (simp add: query_pair_def)

lemma query_pair_plain: "CHR ''&'' \<notin> set (query_pair kv)" "CHR '';'' \<notin> set (query_pair kv)"
  by (simp_all add: query_pair_def QueryEscape_plain)

lemma join_pairs_Cons: "join_pairs (kv # rest) = query_pair kv @ (if rest = [] then [] else ''&'' @ join_pairs rest)"
  by (cases rest) (simp_all add: join_pairs_def)

lemma update_fresh: "k \<notin> fst ` set vs \<Longrightarrow> AList.update k x vs = vs @ [(k, x)]"
  by (induction vs) auto

lemma Values_Add_fresh: "k \<notin> fst ` set vs \<Longrightarrow> Values_Add vs k v = vs @ [(k, [v])]"
proof -
  assume k: "k \<notin> fst ` set vs"
  then have "map_of vs k = None" by (simp add: map_of_eq_None_iff)
  with k show ?thesis by (simp add: Values_Add_def update_fresh)
qed

lemma fold_Values_Add_distinct:
  assumes "distinct (map fst ps)" and "fst ` set ps \<inter> fst ` set acc = {}"
  shows "fold (\<lambda>(k, v) values. Values_Add values k v) ps acc = acc @ map (\<lambda>(k, v). (k, [v])) ps"
  using assms
proof (induction ps arbitrary: acc)
  case Nil
  show ?case by simp
next
  case (Cons p ps)
  obtain k v where p: "p = (k, v)" by (cases p)
  from Cons.prems p have fresh: "k \<notin> fst ` set acc" by auto
  from Cons.prems p have "distinct (map fst ps)"
    and "fst ` set ps \<inter> fst ` set (acc @ [(k, [v])]) = {}"
    by auto
  from Cons.IH [OF this] show ?case
    by (simp add: p Values_Add_fresh [OF fresh])
qed

lemma fold_join:
  "fold (\<lambda>k buf. (if buf \<noteq> [] then buf @ ''&'' else buf) @ query_pair (k, f k)) ks buf =
     (if buf = [] then join_pairs (map (\<lambda>k. (k, f k)) ks)
      else buf @ concat (map (\<lambda>k. ''&'' @ query_pair (k, f k)) ks))"
proof (induction ks arbitrary: buf)
  case Nil
  show ?case by (simp add: join_pairs_def)
next
  case (Cons k ks)
  show ?case
    by (simp add: Cons.IH query_pair_nonempty join_pairs_def comp_def)
qed

lemma parseQuery_join:
  "parseQuery m None (join_pairs ps) = (fold (\<lambda>(k, v) values. Values_Add values k v) ps m, None)"
proof (induction ps arbitrary: m)
  case Nil
  show ?case by (subst parseQuery.simps) (simp add: join_pairs_def)
next
  case (Cons p ps)
  obtain k v where p: "p = (k, v)" by (cases p)
  have cut: "strings_Cut (join_pairs ((k, v) # ps)) CHR ''&'' = (query_pair (k, v), join_pairs ps)"
  proof (cases "ps = []")
    case True
    then show ?thesis
      by (simp add: join_pairs_Cons strings_Cut_not_found query_pair_plain) (simp add: join_pairs_def)
  next
    case False
    then show ?thesis
      by (simp add: join_pairs_Cons strings_Cut_found query_pair_plain)
  qed
  have cut2: "strings_Cut (query_pair (k, v)) CHR ''='' = (QueryEscape k, QueryEscape v)"
    by (simp add: query_pair_def strings_Cut_found QueryEscape_plain)
  have ne: "join_pairs ((k, v) # ps) \<noteq> []"
    by (simp add: join_pairs_Cons query_pair_nonempty)
  show ?case
    unfolding p
    by (subst parseQuery.simps)
       (simp add: ne cut cut2 query_pair_plain query_pair_nonempty QueryUnescape_QueryEscape
          Cons.IH)
qed

lemma Values_Encode_single:
  assumes "distinct (map fst params)"
  shows "Values_Encode (map (\<lambda>(k, v). (k, [v])) params)
         = join_pairs (map (\<lambda>k. (k, the (map_of params k))) (sort (map fst params)))"
proof (cases "params = []")
  case True
  then show ?thesis by (simp add: Values_Encode_def join_pairs_def)
next
  case False
  let ?vs = "map (\<lambda>(k, v). (k, [v])) params"
  have look: "map_of ?vs k = Some [the (map_of params k)]" if "k \<in> set (sort (map fst params))" for k
  proof -
    from that have "map_of params k \<noteq> None"
      by (simp add: map_of_eq_None_iff)
    then obtain v where "map_of params k = Some v" by auto
    then show ?thesis by (simp add: map_of_map)
  qed
  have keys: "fst \<circ> (\<lambda>(k, v). (k, [v :: string])) = (fst :: string \<times> string \<Rightarrow> string)"
    by (auto simp: fun_eq_iff)
  have "fold (\<lambda>k buf.
                   fold (\<lambda>val buf.
                           (if buf \<noteq> [] then buf @ ''&'' else buf)
                             @ QueryEscape k @ ''='' @ QueryEscape val)
                        (case map_of ?vs k of None \<Rightarrow> [] | Some vs \<Rightarrow> vs) buf)
                (sort (map fst params)) []
        = fold (\<lambda>k buf. (if buf \<noteq> [] then buf @ ''&'' else buf)
                            @ query_pair (k, the (map_of params k)))
               (sort (map fst params)) []"
    by (rule fold_cong) (simp_all add: look query_pair_def)
  with False show ?thesis
    by (simp add: Values_Encode_def keys fold_join)
qed

lemma ParseQuery_Values_Encode:
  assumes "distinct (map fst params)"
  shows "\<exists>vs. ParseQuery (Values_Encode (fold (\<lambda>(k, v) values. Values_Add values k v) params []))
              = (vs, None)
           \<and> (\<forall>k. map_of vs k = map_option (\<lambda>v. [v]) (map_of params k))"
proof -
  let ?sorted = "map (\<lambda>k. (k, the (map_of params k))) (sort (map fst params))"
  let ?single = "\<lambda>ps :: (string \<times> string) list. map (\<lambda>(k, v). (k, [v])) ps"
  have built: "fold (\<lambda>(k, v) values. Values_Add values k v) params [] = ?single params"
    using fold_Values_Add_distinct [OF assms, of "[]"] by simp
  have keys: "map fst ?sorted = sort (map fst params)"
    by (simp add: comp_def)
  with assms have "distinct (map fst ?sorted)" by simp
  from fold_Values_Add_distinct [OF this, of "[]"]
  have decoded: "fold (\<lambda>(k, v) values. Values_Add values k v) ?sorted [] = ?single ?sorted"
    by simp
  have "set (sort (map fst params)) = dom (map_of params)"
    by (simp add: dom_map_of_conv_image_fst)
  then have same: "map_of ?sorted = map_of params"
    by (rule map_of_map_keys)
  have "ParseQuery (Values_Encode (fold (\<lambda>(k, v) values. Values_Add values k v) params []))
        = (?single ?sorted, None)"
    by (simp only: built Values_Encode_single [OF assms] ParseQuery_def parseQuery_join decoded)
  moreover have "map_of (?single ?sorted) k = map_option (\<lambda>v. [v]) (map_of params k)" for k
    by (simp only: map_of_map same comp_def)
  ultimately show ?thesis by blast
qed

text \<open>
  C8. For a parameter map (its entries in any order, the keys distinct) the URL that
  \<open>Get\<close> asks \<open>http.NewRequest\<close> for is the built URL followed, when there are
  parameters, by \<open>?\<close> and the encoded parameters; this is stated through the request
  being refused, which \<open>Get\<close> reports. Decoding the encoded parameters succeeds and gives,
  for every key, the one value the map holds for it, and nothing for any other key.
\<close>

theorem Get_query_round_trip:
  assumes "distinct (map fst params)"
  shows "(\<forall>(env :: 'w env) w err.
            http_NewRequest env ''GET''
              (BuildURL c path @
                 (if params = [] then []
                  else ''?'' @ Values_Encode (fold (\<lambda>(k, v) values. Values_Add values k v) params [])))
              None = Inl err \<longrightarrow>
            Get env w c path params = ((Map.empty, Some (''failed to create request: '' @ err)), w))
       \<and> (\<exists>vs. ParseQuery (Values_Encode (fold (\<lambda>(k, v) values. Values_Add values k v) params []))
                  = (vs, None)
              \<and> (\<forall>k. map_of vs k = map_option (\<lambda>v. [v]) (map_of params k)))"
proof (rule conjI)
  show "\<forall>(env :: 'w env) w err.
            http_NewRequest env ''GET''
              (BuildURL c path @
                 (if params = [] then []
                  else ''?'' @ Values_Encode (fold (\<lambda>(k, v) values. Values_Add values k v) params [])))
              None = Inl err \<longrightarrow>
            Get env w c path params = ((Map.empty, Some (''failed to create request: '' @ err)), w)"
    by (simp add: Get_def Let_def)
  show "\<exists>vs. ParseQuery (Values_Encode (fold (\<lambda>(k, v) values. Values_Add values k v) params []))
                  = (vs, None)
              \<and> (\<forall>k. map_of vs k = map_option (\<lambda>v. [v]) (map_of params k))"
    by (rule ParseQuery_Values_Encode [OF assms])
qed

lemma demo_query:
  "Values_Encode (fold (\<lambda>(k, v) values. Values_Add values k v) demo_params [])
     = ''fields%5Bdevices%5D=model%2Cstatus&filter%5Budid%5D=ABC+123''"
  unfolding demo_params_def by code_simp

theorem Get_query_round_trip_witness:
  "distinct (map fst demo_params)
 \<and> Values_Encode (fold (\<lambda>(k, v) values. Values_Add values k v) demo_params [])
     = ''fields%5Bdevices%5D=model%2Cstatus&filter%5Budid%5D=ABC+123''
 \<and> (\<exists>vs. ParseQuery ''fields%5Bdevices%5D=model%2Cstatus&filter%5Budid%5D=ABC+123'' = (vs, None)
        \<and> map_of vs ''filter[udid]'' = Some [''ABC 123'']
        \<and> map_of vs ''fields[devices]'' = Some [''model,status'']
        \<and> map_of vs ''limit'' = None)"
proof -
  have d: "distinct (map fst demo_params)" by (simp add: demo_params_def)
  from Get_query_round_trip [OF d, THEN conjunct2] obtain vs where
    vs: "ParseQuery (Values_Encode (fold (\<lambda>(k, v) values. Values_Add values k v) demo_params []))
           = (vs, None)"
    and look: "\<And>k. map_of vs k = map_option (\<lambda>v. [v]) (map_of demo_params k)"
    by blast
  have "map_of vs ''filter[udid]'' = Some [''ABC 123'']"
    and "map_of vs ''fields[devices]'' = Some [''model,status'']"
    and "map_of vs ''limit'' = None"
    by (simp_all add: look demo_params_def)
  with vs d demo_query show ?thesis by auto
qed

end
